theory Spec2Isabelle
  imports Main
begin

section \<open>Python values\<close>

text \<open>
  Documents are Python dictionaries holding strings, integers, booleans, \<open>None\<close>, lists and
  further dictionaries. A dictionary is an association list in insertion order with distinct
  keys. Python strings are modelled by \<open>string\<close>, one \<open>char\<close> per code point, so the model
  covers the code points 0 to 255 (every key of the catalog lies in that range; the letter
  e-acute is \<open>CHR 0xE9\<close>).
\<close>

datatype json =
    JNull
  | JBool bool
  | JInt int
  | JStr string
  | JList "json list"
  | JObj "(string \<times> json) list"

type_synonym dict = "(string \<times> json) list"

datatype exn =
    HTTPException int string
  | ValueError string
  | ConnectionError string
  | AttributeError string
  | TypeError string
  | KeyError string
  | JSONDecodeError string
  | InvalidAddress string

text \<open>\<open>k in d\<close>, \<open>d.get(k)\<close>, \<open>d.get(k, default)\<close> and \<open>d[k] = v\<close> on a dictionary.\<close>

definition dict_contains :: "('k \<times> 'v) list \<Rightarrow> 'k \<Rightarrow> bool" where
  "dict_contains d k = (k \<in> set (map fst d))"

definition dict_get :: "('k \<times> 'v) list \<Rightarrow> 'k \<Rightarrow> 'v option" where
  "dict_get d k = map_of d k"

definition dict_get_default :: "('k \<times> 'v) list \<Rightarrow> 'k \<Rightarrow> 'v \<Rightarrow> 'v" where
  "dict_get_default d k dflt = (case map_of d k of None \<Rightarrow> dflt | Some v \<Rightarrow> v)"

fun dict_set :: "('k \<times> 'v) list \<Rightarrow> 'k \<Rightarrow> 'v \<Rightarrow> ('k \<times> 'v) list" where
  "dict_set [] k v = [(k, v)]"
| "dict_set ((k', v') # d) k v =
     (if k' = k then (k, v) # d else (k', v') # dict_set d k v)"

text \<open>Truthiness of an optional string: \<open>None\<close> and the empty string are both false.\<close>

fun truthy_str :: "string option \<Rightarrow> bool" where
  "truthy_str None = False"
| "truthy_str (Some s) = (s \<noteq> [])"

fun json_of_str_opt :: "string option \<Rightarrow> json" where
  "json_of_str_opt None = JNull"
| "json_of_str_opt (Some s) = JStr s"

text \<open>\<open>str(n)\<close> for integers, as the f-strings format them.\<close>

fun str_nat :: "nat \<Rightarrow> string" where
  "str_nat n =
     (if n < 10 then [''0123456789'' ! n]
      else str_nat (n div 10) @ [''0123456789'' ! (n mod 10)])"

declare str_nat.simps [simp del]

definition str_int :: "int \<Rightarrow> string" where
  "str_int i = (if i < 0 then ''-'' @ str_nat (nat (- i)) else str_nat (nat i))"

text \<open>\<open>str.lower()\<close> on the code points 0 to 255: the ASCII capitals and the Latin-1
  capitals \<open>0xC0\<close> to \<open>0xDE\<close> (without the multiplication sign \<open>0xD7\<close>) move up by 32.\<close>

definition lower_char :: "char \<Rightarrow> char" where
  "lower_char c =
     (let n = (of_char c :: nat)
      in if (65 \<le> n \<and> n \<le> 90) \<or> (192 \<le> n \<and> n \<le> 222 \<and> n \<noteq> 215)
         then char_of (n + 32) else c)"

definition lower :: "string \<Rightarrow> string" where
  "lower s = map lower_char s"

text \<open>\<open>sub in s\<close> on strings.\<close>

fun is_prefix :: "string \<Rightarrow> string \<Rightarrow> bool" where
  "is_prefix [] s = True"
| "is_prefix (c # cs) [] = False"
| "is_prefix (c # cs) (d # ds) = (c = d \<and> is_prefix cs ds)"

fun is_substring :: "string \<Rightarrow> string \<Rightarrow> bool" where
  "is_substring sub [] = (sub = [])"
| "is_substring sub (d # ds) = (is_prefix sub (d # ds) \<or> is_substring sub ds)"

text \<open>Naive \<open>datetime\<close> values and \<open>datetime.isoformat()\<close>.\<close>

record datetime =
  year :: nat
  month :: nat
  day :: nat
  hour :: nat
  minute :: nat
  second :: nat
  microsecond :: nat

definition zpad :: "nat \<Rightarrow> nat \<Rightarrow> string" where
  "zpad w n = replicate (w - length (str_nat n)) (CHR ''0'') @ str_nat n"

definition isoformat :: "datetime \<Rightarrow> string" where
  "isoformat d =
     zpad 4 (year d) @ ''-'' @ zpad 2 (month d) @ ''-'' @ zpad 2 (day d) @ ''T''
     @ zpad 2 (hour d) @ '':'' @ zpad 2 (minute d) @ '':'' @ zpad 2 (second d)
     @ (if microsecond d = 0 then [] else ''.'' @ zpad 6 (microsecond d))"


section \<open>Database rows (app/database.py)\<close>

text \<open>Every column except the primary key is nullable, so it is an option.\<close>

record user =
  user_id :: int
  user_username :: "string option"
  user_email :: "string option"
  user_hashed_password :: "string option"
  user_role :: "string option"
  user_wallet_address :: "string option"
  user_is_active :: "bool option"
  user_created_at :: "datetime option"
  user_updated_at :: "datetime option"

record patient =
  pat_id :: int
  pat_patient_hash :: "string option"
  pat_first_name_hash :: "string option"
  pat_last_name_hash :: "string option"
  pat_birth_date_hash :: "string option"
  pat_created_at :: "datetime option"

record procedure =
  proc_id :: int
  proc_blockchain_id :: "int option"
  proc_patient_hash :: "string option"
  proc_practitioner_id :: "int option"
  proc_procedure_type :: "string option"
  proc_duration :: "int option"
  proc_consent_hash :: "string option"
  proc_metadata :: "string option"
  proc_blockchain_tx_hash :: "string option"
  proc_created_at :: "datetime option"
  proc_updated_at :: "datetime option"

text \<open>The \<open>fhir_data\<close> column holds \<open>json.dumps\<close> of the document, and the readers apply
  \<open>json.loads\<close> to it; the model stores the document itself.\<close>

record fhir_resource =
  res_id :: int
  res_resource_type :: "string option"
  res_resource_id :: "string option"
  res_fhir_data :: "dict option"
  res_created_at :: "datetime option"
  res_updated_at :: "datetime option"

record database =
  users :: "user list"
  patients :: "patient list"
  procedures :: "procedure list"
  fhir_resources :: "fhir_resource list"

text \<open>An integer primary key is assigned on insertion: one more than the largest key in
  the table.\<close>

definition next_id :: "int list \<Rightarrow> int" where
  "next_id ids = fold max ids 0 + 1"


section \<open>The coded-concept catalog and the claim builder (fhir_converter.py)\<close>

record snomed =
  code :: string
  display :: string
  system :: string

definition SNOMED_PROCEDURE_CODES :: "(string \<times> snomed) list" where
  "SNOMED_PROCEDURE_CODES =
    [(''embolisation'',
        \<lparr>code = ''433144002'', display = ''Embolization procedure'',
         system = ''http://snomed.info/sct''\<rparr>),
     (''ponction'',
        \<lparr>code = ''261190007'', display = ''Percutaneous puncture'',
         system = ''http://snomed.info/sct''\<rparr>),
     (''stent'',
        \<lparr>code = ''384692006'', display = ''Insertion of stent'',
         system = ''http://snomed.info/sct''\<rparr>),
     (''angioplastie'',
        \<lparr>code = ''372024009'', display = ''Angioplasty'',
         system = ''http://snomed.info/sct''\<rparr>),
     (''biopsie'',
        \<lparr>code = ''387713003'', display = ''Surgical biopsy'',
         system = ''http://snomed.info/sct''\<rparr>),
     (''drainage'',
        \<lparr>code = ''174250002'', display = ''Drainage procedure'',
         system = ''http://snomed.info/sct''\<rparr>),
     (''ablation'',
        \<lparr>code = ''713295009'', display = ''Ablation'',
         system = ''http://snomed.info/sct''\<rparr>),
     (''radiofr'' @ [CHR 0xE9] @ ''quence'',
        \<lparr>code = ''173666000'', display = ''Radiofrequency ablation'',
         system = ''http://snomed.info/sct''\<rparr>),
     (''cryoth'' @ [CHR 0xE9] @ ''rapie'',
        \<lparr>code = ''173665001'', display = ''Cryotherapy'',
         system = ''http://snomed.info/sct''\<rparr>),
     (''chimioembolisation'',
        \<lparr>code = ''430193006'', display = ''Chemoembolization'',
         system = ''http://snomed.info/sct''\<rparr>)]"

definition default_snomed :: snomed where
  "default_snomed =
     \<lparr>code = ''261190007'', display = ''Percutaneous puncture'',
      system = ''http://snomed.info/sct''\<rparr>"

definition get_snomed_code :: "string \<Rightarrow> snomed" where
  "get_snomed_code procedure_type =
     dict_get_default SNOMED_PROCEDURE_CODES (lower procedure_type) default_snomed"

definition snomed_coding :: "snomed \<Rightarrow> json" where
  "snomed_coding sc =
     JObj [(''system'', JStr (system sc)), (''code'', JStr (code sc)),
           (''display'', JStr (display sc))]"

definition claim_meta :: "datetime \<Rightarrow> dict" where
  "claim_meta updated =
     [(''versionId'', JStr ''1''),
      (''lastUpdated'', JStr (isoformat updated)),
      (''source'', JStr ''#radiology-dapp'')]"

definition claim_literal ::
  "procedure \<Rightarrow> user \<Rightarrow> snomed \<Rightarrow> string \<Rightarrow> string \<Rightarrow> datetime \<Rightarrow> datetime \<Rightarrow> dict" where
  "claim_literal p pr snomed_code ptype ph created updated =
     [(''resourceType'', JStr ''Claim''),
      (''id'', JStr (''claim-'' @ str_int (proc_id p))),
      (''status'', JStr ''active''),
      (''type'', JObj [(''coding'', JList [JObj
          [(''system'', JStr ''http://terminology.hl7.org/CodeSystem/claim-type''),
           (''code'', JStr ''institutional''),
           (''display'', JStr ''Institutional'')]])]),
      (''use'', JStr ''claim''),
      (''patient'', JObj
          [(''reference'', JStr (''Patient/'' @ ph)),
           (''display'', JStr (''Patient '' @ take 8 ph @ ''...''))]),
      (''created'', JStr (isoformat created)),
      (''provider'', JObj
          [(''reference'', JStr (''Practitioner/'' @ str_int (user_id pr))),
           (''display'', json_of_str_opt (user_username pr))]),
      (''priority'', JObj [(''coding'', JList [JObj
          [(''system'', JStr ''http://terminology.hl7.org/CodeSystem/processpriority''),
           (''code'', JStr ''normal''),
           (''display'', JStr ''Normal'')]])]),
      (''procedure'', JList [JObj
          [(''sequence'', JInt 1),
           (''procedureCodeableConcept'', JObj
               [(''coding'', JList [snomed_coding snomed_code]),
                (''text'', JStr ptype)]),
           (''date'', JStr (isoformat created))]]),
      (''insurance'', JList [JObj
          [(''sequence'', JInt 1),
           (''focal'', JBool True),
           (''coverage'', JObj
               [(''reference'', JStr (''Coverage/coverage-'' @ take 8 ph))])]]),
      (''item'', JList [JObj
          [(''sequence'', JInt 1),
           (''careTeamSequence'', JList [JInt 1]),
           (''productOrService'', JObj [(''coding'', JList [snomed_coding snomed_code])]),
           (''servicedDate'', JStr (isoformat created)),
           (''quantity'', JObj [(''value'', JInt 1), (''unit'', JStr ''procedure'')])]]),
      (''total'', JObj [(''currency'', JStr ''EUR''), (''value'', JInt 0)]),
      (''meta'', JObj (claim_meta updated))]"

definition blockchain_extension :: "string \<Rightarrow> json" where
  "blockchain_extension tx =
     JList [JObj [(''url'', JStr ''http://radiology-dapp.com/blockchain-transaction''),
                  (''valueString'', JStr tx)]]"

definition consent_supporting_info :: "string \<Rightarrow> json" where
  "consent_supporting_info ch =
     JList [JObj
       [(''sequence'', JInt 1),
        (''category'', JObj [(''coding'', JList [JObj
            [(''system'',
                JStr ''http://terminology.hl7.org/CodeSystem/claim-informationcategory''),
             (''code'', JStr ''consent''),
             (''display'', JStr ''Consent'')]])]),
        (''valueString'', JStr ch)]]"

text \<open>
  \<open>create_fhir_claim\<close>. The attribute accesses that raise on a \<open>NULL\<close> column are the
  branches returning \<open>Inl\<close>, in the order in which Python evaluates them:
  \<open>procedure.procedure_type.lower()\<close>, \<open>patient.patient_hash[:8]\<close>,
  \<open>procedure.created_at.isoformat()\<close>, \<open>procedure.updated_at.isoformat()\<close>.
  \<open>claim["meta"]\<close> is the dictionary built in the literal, so
  \<open>claim["meta"]["extension"] = ...\<close> stores into it.
\<close>

definition create_fhir_claim :: "procedure \<Rightarrow> patient \<Rightarrow> user \<Rightarrow> exn + dict" where
  "create_fhir_claim p pa pr =
     (case proc_procedure_type p of
        None \<Rightarrow> Inl (AttributeError ([CHR 0x27] @ ''NoneType' object has no attribute 'lower'' @ [CHR 0x27]))
      | Some ptype \<Rightarrow>
     let snomed_code = dict_get_default SNOMED_PROCEDURE_CODES (lower ptype) default_snomed in
     (case pat_patient_hash pa of
        None \<Rightarrow> Inl (TypeError ([CHR 0x27] @ ''NoneType' object is not subscriptable''))
      | Some ph \<Rightarrow>
     (case proc_created_at p of
        None \<Rightarrow> Inl (AttributeError ([CHR 0x27] @ ''NoneType' object has no attribute 'isoformat'' @ [CHR 0x27]))
      | Some created \<Rightarrow>
     (case proc_updated_at p of
        None \<Rightarrow> Inl (AttributeError ([CHR 0x27] @ ''NoneType' object has no attribute 'isoformat'' @ [CHR 0x27]))
      | Some updated \<Rightarrow>
     let claim = claim_literal p pr snomed_code ptype ph created updated;
         claim = (if truthy_str (proc_blockchain_tx_hash p)
                  then dict_set claim ''meta''
                         (JObj (dict_set (claim_meta updated) ''extension''
                            (blockchain_extension (the (proc_blockchain_tx_hash p)))))
                  else claim);
         claim = (if truthy_str (proc_consent_hash p)
                  then dict_set claim ''supportingInfo''
                         (consent_supporting_info (the (proc_consent_hash p)))
                  else claim)
     in Inr claim))))"


section \<open>Claim validation (fhir_converter.py)\<close>

text \<open>
  \<open>"sequence" not in procedure\<close> depends on what the entry is: key membership for a
  dictionary, element membership for a list, substring test for a string, and a
  \<open>TypeError\<close> for \<open>None\<close>, a boolean or an integer.
\<close>

fun py_in :: "string \<Rightarrow> json \<Rightarrow> exn + bool" where
  "py_in k (JObj d) = Inr (dict_contains d k)"
| "py_in k (JList xs) = Inr (JStr k \<in> set xs)"
| "py_in k (JStr s) = Inr (is_substring k s)"
| "py_in k _ = Inl (TypeError ''argument is not iterable'')"

text \<open>\<open>enumerate(claim["procedure"])\<close>: a list yields its elements, a dictionary its keys,
  a string its characters; anything else is not iterable.\<close>

fun py_iter :: "json \<Rightarrow> exn + json list" where
  "py_iter (JList xs) = Inr xs"
| "py_iter (JObj d) = Inr (map (\<lambda>kv. JStr (fst kv)) d)"
| "py_iter (JStr s) = Inr (map (\<lambda>c. JStr [c]) s)"
| "py_iter _ = Inl (TypeError ''object is not iterable'')"

fun check_procedures :: "nat \<Rightarrow> json list \<Rightarrow> string list \<Rightarrow> exn + string list" where
  "check_procedures i [] errors = Inr errors"
| "check_procedures i (procedure # rest) errors =
     (case py_in ''sequence'' procedure of
        Inl e \<Rightarrow> Inl e
      | Inr has_seq \<Rightarrow>
          let errors = (if \<not> has_seq
                        then errors @ [''Sequence manquante pour la proc'' @ [CHR 0xE9]
                                       @ ''dure '' @ str_nat i]
                        else errors)
          in (case py_in ''procedureCodeableConcept'' procedure of
                Inl e \<Rightarrow> Inl e
              | Inr has_concept \<Rightarrow>
                  let errors = (if \<not> has_concept
                                then errors @ [''procedureCodeableConcept manquant pour la proc''
                                               @ [CHR 0xE9] @ ''dure '' @ str_nat i]
                                else errors)
                  in check_procedures (Suc i) rest errors))"

definition required_fields :: "string list" where
  "required_fields = [''resourceType'', ''id'', ''status'', ''type'', ''patient'', ''provider'']"

definition valid_statuses :: "string list" where
  "valid_statuses = [''active'', ''cancelled'', ''draft'', ''entered-in-error'']"

definition missing_field_errors :: "dict \<Rightarrow> string list" where
  "missing_field_errors claim =
     map (\<lambda>field. ''Champ requis manquant: '' @ field)
         (filter (\<lambda>field. \<not> dict_contains claim field) required_fields)"

definition validate_fhir_claim :: "dict \<Rightarrow> exn + dict" where
  "validate_fhir_claim claim =
     (let errors = missing_field_errors claim;
          errors = (if dict_get claim ''resourceType'' \<noteq> Some (JStr ''Claim'')
                    then errors @ [''resourceType doit '' @ [CHR 0xEA] @ ''tre 'Claim'' @ [CHR 0x27]]
                    else errors);
          errors = (if dict_get claim ''status'' \<notin> set (map (\<lambda>s. Some (JStr s)) valid_statuses)
                    then errors @ [''Status invalide. Valeurs autoris'' @ [CHR 0xE9]
                           @ ''es: ['active', 'cancelled', 'draft', 'entered-in-error']'']
                    else errors);
          checked = (if dict_contains claim ''procedure''
                     then (case py_iter (the (dict_get claim ''procedure'')) of
                             Inl e \<Rightarrow> Inl e
                           | Inr entries \<Rightarrow> check_procedures 0 entries errors)
                     else Inr errors)
      in case checked of
           Inl e \<Rightarrow> Inl e
         | Inr errors \<Rightarrow>
             Inr [(''valid'', JBool (length errors = 0)),
                  (''errors'', JList (map JStr errors)),
                  (''warnings'', JList [])])"


section \<open>The ledger client (app/utils/blockchain.py)\<close>

text \<open>
  The ledger is a black box. \<open>node_is_connected\<close> is the answer of \<open>web3.is_connected()\<close>,
  and \<open>node_submit\<close> is the outcome of the statements inside the \<open>try\<close> block of
  \<open>record_procedure_on_blockchain\<close> (gas estimation, building, signing, sending, waiting for
  the receipt): either the receipt, or the text of the exception that one of them raised.
  \<open>abi_file\<close> is the outcome of reading the ABI file: it is read, or it is missing
  (\<open>FileNotFoundError\<close>, the one exception that \<open>init_web3\<close> catches, falling back to its
  built-in ABI), or reading it raises something else (a malformed file, a file without the
  \<open>abi\<close> key). \<open>contract_raises\<close> gives, for an address, the exception that
  \<open>web3.eth.contract(address=...)\<close> raises on it, if any (\<open>InvalidAddress\<close> for an address
  that is not a checksummed 20-byte hex string).
  The environment also holds the process environment variables and the clock readings.
  Constructing the \<open>Web3\<close> object and injecting the middleware do no input or output and
  are taken to succeed.
\<close>

datatype rpc_outcome =
    Receipt string int int
  | Raises string

datatype abi_outcome =
    AbiLoaded
  | AbiFileNotFound
  | AbiRaises exn

record environment =
  env_BLOCKCHAIN_URL :: "string option"
  env_CONTRACT_ADDRESS :: "string option"
  env_PRACTITIONER_PRIVATE_KEY :: "string option"
  node_is_connected :: bool
  abi_file :: abi_outcome
  contract_raises :: "string \<Rightarrow> exn option"
  node_submit :: "string \<times> string \<times> int \<times> string \<times> string \<times> string \<Rightarrow> rpc_outcome"
  utcnow :: datetime
  utcnow_onupdate :: datetime

text \<open>The module-level variables \<open>web3\<close>, \<open>contract\<close> and \<open>contract_address\<close>; a client is
  represented by the URL it was created for, a contract handle by its address.\<close>

record globals =
  web3 :: "string option"
  contract :: "string option"
  contract_address :: "string option"

definition init_web3 :: "environment \<Rightarrow> globals \<Rightarrow> (exn + unit) \<times> globals" where
  "init_web3 env g =
     (let network_url = (case env_BLOCKCHAIN_URL env of
                           None \<Rightarrow> ''http://127.0.0.1:8545'' | Some u \<Rightarrow> u);
          g = g\<lparr>contract_address := env_CONTRACT_ADDRESS env\<rparr>
      in if \<not> truthy_str (contract_address g)
         then (Inl (ValueError (''CONTRACT_ADDRESS non d'' @ [CHR 0xE9]
                 @ ''finie dans les variables d'environnement'')), g)
         else
           let g = g\<lparr>web3 := Some network_url\<rparr>
           in if \<not> node_is_connected env
              then (Inl (ConnectionError (''Impossible de se connecter au r'' @ [CHR 0xE9]
                      @ ''seau blockchain'')), g)
              else
                (case abi_file env of
                   AbiRaises e \<Rightarrow> (Inl e, g)
                 | _ \<Rightarrow>
                     (case contract_raises env (the (contract_address g)) of
                        Some e \<Rightarrow> (Inl e, g)
                      | None \<Rightarrow> (Inr (), g\<lparr>contract := contract_address g\<rparr>))))"

definition record_procedure_on_blockchain ::
  "environment \<Rightarrow> string \<Rightarrow> string \<Rightarrow> int \<Rightarrow> string \<Rightarrow> string \<Rightarrow> string \<Rightarrow> globals
     \<Rightarrow> (exn + dict) \<times> globals" where
  "record_procedure_on_blockchain env patient_hash procedure_type duration consent_hash
       metadata private_key g =
     (case (if contract g = None then init_web3 env g else (Inr (), g)) of
        (Inl e, g') \<Rightarrow> (Inl e, g')
      | (Inr _, g') \<Rightarrow>
          (case node_submit env
                  (patient_hash, procedure_type, duration, consent_hash, metadata, private_key) of
             Receipt tx_hash block_number gas_used \<Rightarrow>
               (Inr [(''success'', JBool True),
                     (''tx_hash'', JStr tx_hash),
                     (''block_number'', JInt block_number),
                     (''gas_used'', JInt gas_used)], g')
           | Raises e \<Rightarrow>
               (Inr [(''success'', JBool False), (''error'', JStr e)], g')))"


section \<open>Creating a procedure (app/routers/procedures.py)\<close>

record procedure_create =
  pc_patient_hash :: string
  pc_procedure_type :: string
  pc_duration :: int
  pc_consent_hash :: string
  pc_metadata :: "string option"

definition PROCEDURE_TYPES :: "string list" where
  "PROCEDURE_TYPES =
     [''embolisation'', ''ponction'', ''stent'', ''angioplastie'', ''biopsie'', ''drainage'',
      ''ablation'', ''radiofr'' @ [CHR 0xE9] @ ''quence'', ''cryoth'' @ [CHR 0xE9] @ ''rapie'',
      ''chimioembolisation'']"

text \<open>Truthiness of a Python value, for \<open>if blockchain_result["success"]\<close>.\<close>

fun truthy :: "json \<Rightarrow> bool" where
  "truthy JNull = False"
| "truthy (JBool b) = b"
| "truthy (JInt i) = (i \<noteq> 0)"
| "truthy (JStr s) = (s \<noteq> [])"
| "truthy (JList xs) = (xs \<noteq> [])"
| "truthy (JObj d) = (d \<noteq> [])"

text \<open>\<open>db.commit()\<close> of a modified row: the row with that primary key is replaced.\<close>

definition update_procedure :: "procedure \<Rightarrow> procedure list \<Rightarrow> procedure list" where
  "update_procedure p rows = map (\<lambda>q. if proc_id q = proc_id p then p else q) rows"

text \<open>
  The ledger step of \<open>create_procedure\<close>, that is the body of its \<open>try\<close> statement. Every
  exception raised inside is caught by \<open>except Exception\<close> and only printed, so the step
  returns the \<open>db_procedure\<close> object as it then is, the database and the module variables.
  A subscript on a missing key raises \<open>KeyError\<close> after \<open>blockchain_id\<close> has been assigned
  on the object but before the commit.
\<close>

definition ledger_step ::
  "environment \<Rightarrow> procedure_create \<Rightarrow> procedure \<Rightarrow> database \<Rightarrow> globals
     \<Rightarrow> procedure \<times> database \<times> globals" where
  "ledger_step env procedure db_procedure db g =
     (let private_key = env_PRACTITIONER_PRIVATE_KEY env
      in if truthy_str private_key
         then
           (case record_procedure_on_blockchain env
                   (pc_patient_hash procedure) (pc_procedure_type procedure)
                   (pc_duration procedure) (pc_consent_hash procedure)
                   (case pc_metadata procedure of
                      None \<Rightarrow> [] | Some m \<Rightarrow> m)
                   (the private_key) g of
              (Inl e, g') \<Rightarrow> (db_procedure, db, g')
            | (Inr blockchain_result, g') \<Rightarrow>
                (case dict_get blockchain_result ''success'' of
                   None \<Rightarrow> (db_procedure, db, g')
                 | Some success \<Rightarrow>
                     if truthy success
                     then
                       let db_procedure =
                             db_procedure\<lparr>proc_blockchain_id := Some (proc_id db_procedure)\<rparr>
                       in (case dict_get blockchain_result ''tx_hash'' of
                             Some (JStr tx_hash) \<Rightarrow>
                               let db_procedure =
                                     db_procedure\<lparr>proc_blockchain_tx_hash := Some tx_hash,
                                                  proc_updated_at := Some (utcnow_onupdate env)\<rparr>
                               in (db_procedure,
                                   db\<lparr>procedures :=
                                        update_procedure db_procedure (procedures db)\<rparr>,
                                   g')
                           | _ \<Rightarrow> (db_procedure, db, g'))
                     else (db_procedure, db, g')))
         else (db_procedure, db, g))"

text \<open>
  \<open>create_procedure\<close>. The request body has passed the schema \<open>ProcedureCreate\<close> before the
  handler runs. The two checks raise \<open>HTTPException\<close> before anything is written; then the
  row is inserted and committed; then the ledger step runs. A \<open>db.commit()\<close> is taken to
  succeed.
\<close>

definition create_procedure ::
  "environment \<Rightarrow> procedure_create \<Rightarrow> user \<Rightarrow> database \<Rightarrow> globals
     \<Rightarrow> (exn + procedure) \<times> database \<times> globals" where
  "create_procedure env procedure current_user db g =
     (if pc_procedure_type procedure \<notin> set PROCEDURE_TYPES
      then (Inl (HTTPException 400
              (''Type d'intervention invalide. Types support'' @ [CHR 0xE9]
               @ ''s: ['embolisation', 'ponction', 'stent', 'angioplastie', 'biopsie', ''
               @ [CHR 0x27] @ ''drainage', 'ablation', 'radiofr'' @ [CHR 0xE9] @ ''quence', ''
               @ [CHR 0x27] @ ''cryoth'' @ [CHR 0xE9] @ ''rapie', 'chimioembolisation']'')),
            db, g)
      else
        (case find (\<lambda>pa. pat_patient_hash pa = Some (pc_patient_hash procedure))
                (patients db) of
           None \<Rightarrow> (Inl (HTTPException 404 (''Patient non trouv'' @ [CHR 0xE9])), db, g)
         | Some patient \<Rightarrow>
             let db_procedure =
                   \<lparr>proc_id = next_id (map proc_id (procedures db)),
                    proc_blockchain_id = None,
                    proc_patient_hash = Some (pc_patient_hash procedure),
                    proc_practitioner_id = Some (user_id current_user),
                    proc_procedure_type = Some (pc_procedure_type procedure),
                    proc_duration = Some (pc_duration procedure),
                    proc_consent_hash = Some (pc_consent_hash procedure),
                    proc_metadata = pc_metadata procedure,
                    proc_blockchain_tx_hash = None,
                    proc_created_at = Some (utcnow env),
                    proc_updated_at = Some (utcnow env)\<rparr>;
                 db = db\<lparr>procedures := procedures db @ [db_procedure]\<rparr>
             in (case ledger_step env procedure db_procedure db g of
                   (db_procedure, db, g) \<Rightarrow> (Inr db_procedure, db, g))))"


section \<open>Generating and storing a claim document (app/routers/fhir.py)\<close>

definition generate_fhir_claim ::
  "environment \<Rightarrow> int \<Rightarrow> database \<Rightarrow> (exn + dict) \<times> database" where
  "generate_fhir_claim env procedure_id db =
     (case find (\<lambda>p. proc_id p = procedure_id) (procedures db) of
        None \<Rightarrow> (Inl (HTTPException 404 (''Acte non trouv'' @ [CHR 0xE9])), db)
      | Some procedure \<Rightarrow>
     (case find (\<lambda>pa. pat_patient_hash pa = proc_patient_hash procedure) (patients db) of
        None \<Rightarrow> (Inl (HTTPException 404 (''Patient non trouv'' @ [CHR 0xE9])), db)
      | Some patient \<Rightarrow>
     (case find (\<lambda>u. Some (user_id u) = proc_practitioner_id procedure) (users db) of
        None \<Rightarrow> (Inl (HTTPException 404 (''Praticien non trouv'' @ [CHR 0xE9])), db)
      | Some practitioner \<Rightarrow>
     (case create_fhir_claim procedure patient practitioner of
        Inl e \<Rightarrow> (Inl e, db)
      | Inr claim \<Rightarrow>
          let fhir_resource =
                \<lparr>res_id = next_id (map res_id (fhir_resources db)),
                 res_resource_type = Some ''Claim'',
                 res_resource_id = Some (''claim-'' @ str_int procedure_id),
                 res_fhir_data = Some claim,
                 res_created_at = Some (utcnow env),
                 res_updated_at = Some (utcnow env)\<rparr>
          in (Inr claim, db\<lparr>fhir_resources := fhir_resources db @ [fhir_resource]\<rparr>)))))"


section \<open>Notions used to state the properties\<close>

text \<open>Path access into a document: \<open>x[k]\<close> on a dictionary and \<open>x[i]\<close> on a list.\<close>

fun json_at :: "json \<Rightarrow> string \<Rightarrow> json option" where
  "json_at (JObj d) k = dict_get d k"
| "json_at _ k = None"

fun json_nth :: "json \<Rightarrow> nat \<Rightarrow> json option" where
  "json_nth (JList xs) i = (if i < length xs then Some (xs ! i) else None)"
| "json_nth _ i = None"

text \<open>\<open>claim["procedure"][0]["procedureCodeableConcept"]["coding"]\<close>,
  \<open>claim["item"][0]["productOrService"]["coding"]\<close>, \<open>claim["meta"]["extension"]\<close> and
  \<open>claim["supportingInfo"][0]["valueString"]\<close>.\<close>

definition claim_procedure_coding :: "dict \<Rightarrow> json option" where
  "claim_procedure_coding c =
     Option.bind (Option.bind (Option.bind (dict_get c ''procedure'') (\<lambda>x. json_nth x 0))
       (\<lambda>x. json_at x ''procedureCodeableConcept'')) (\<lambda>x. json_at x ''coding'')"

definition claim_item_coding :: "dict \<Rightarrow> json option" where
  "claim_item_coding c =
     Option.bind (Option.bind (Option.bind (dict_get c ''item'') (\<lambda>x. json_nth x 0))
       (\<lambda>x. json_at x ''productOrService'')) (\<lambda>x. json_at x ''coding'')"

definition claim_meta_extension :: "dict \<Rightarrow> json option" where
  "claim_meta_extension c = Option.bind (dict_get c ''meta'') (\<lambda>m. json_at m ''extension'')"

definition claim_consent_value :: "dict \<Rightarrow> json option" where
  "claim_consent_value c =
     Option.bind (Option.bind (dict_get c ''supportingInfo'') (\<lambda>x. json_nth x 0))
       (\<lambda>x. json_at x ''valueString'')"

text \<open>A well-formed triple: the columns that the builder dereferences are not \<open>NULL\<close>.\<close>

definition well_formed :: "procedure \<Rightarrow> patient \<Rightarrow> bool" where
  "well_formed p pa =
     (proc_procedure_type p \<noteq> None \<and> pat_patient_hash pa \<noteq> None
      \<and> proc_created_at p \<noteq> None \<and> proc_updated_at p \<noteq> None)"

text \<open>The stored documents under one key \<open>(resource_type, resource_id)\<close>.\<close>

definition documents_for :: "string \<Rightarrow> string \<Rightarrow> database \<Rightarrow> fhir_resource list" where
  "documents_for rtype rid db =
     filter (\<lambda>r. res_resource_type r = Some rtype \<and> res_resource_id r = Some rid)
            (fhir_resources db)"

text \<open>A procedure entry passes the two per-entry checks of the validator.\<close>

definition entry_ok :: "json \<Rightarrow> bool" where
  "entry_ok e =
     (py_in ''sequence'' e = Inr True \<and> py_in ''procedureCodeableConcept'' e = Inr True)"

text \<open>The entries on which the two membership tests of the validator do not raise.\<close>

fun is_container :: "json \<Rightarrow> bool" where
  "is_container (JObj d) = True"
| "is_container (JList xs) = True"
| "is_container (JStr s) = True"
| "is_container _ = False"

text \<open>The document that \<open>create_fhir_claim\<close> returns once the four dereferenced columns
  are known (lemma \<open>create_fhir_claim_Inr\<close>).\<close>

definition built_claim :: "procedure \<Rightarrow> user \<Rightarrow> string \<Rightarrow> string \<Rightarrow> datetime \<Rightarrow> datetime \<Rightarrow> dict" where
  "built_claim p pr ptype ph created updated =
     (let claim = claim_literal p pr (get_snomed_code ptype) ptype ph created updated;
         claim = (if truthy_str (proc_blockchain_tx_hash p)
                  then dict_set claim ''meta''
                         (JObj (dict_set (claim_meta updated) ''extension''
                            (blockchain_extension (the (proc_blockchain_tx_hash p)))))
                  else claim)
         in (if truthy_str (proc_consent_hash p)
                  then dict_set claim ''supportingInfo''
                         (consent_supporting_info (the (proc_consent_hash p)))
                  else claim))"

text \<open>The row that \<open>create_procedure\<close> inserts (lemma \<open>create_procedure_accepted\<close>).\<close>

definition new_procedure :: "environment \<Rightarrow> procedure_create \<Rightarrow> user \<Rightarrow> database \<Rightarrow> procedure" where
  "new_procedure env procedure current_user db =
                   \<lparr>proc_id = next_id (map proc_id (procedures db)),
                    proc_blockchain_id = None,
                    proc_patient_hash = Some (pc_patient_hash procedure),
                    proc_practitioner_id = Some (user_id current_user),
                    proc_procedure_type = Some (pc_procedure_type procedure),
                    proc_duration = Some (pc_duration procedure),
                    proc_consent_hash = Some (pc_consent_hash procedure),
                    proc_metadata = pc_metadata procedure,
                    proc_blockchain_tx_hash = None,
                    proc_created_at = Some (utcnow env),
                    proc_updated_at = Some (utcnow env)\<rparr>"

text \<open>The ledger submission did not succeed: \<open>record_procedure_on_blockchain\<close> raised, or
  returned a result whose \<open>success\<close> entry is missing or false.\<close>

definition submission_failed :: "exn + dict \<Rightarrow> bool" where
  "submission_failed r =
     (case r of
        Inl e \<Rightarrow> True
      | Inr res \<Rightarrow> (case dict_get res ''success'' of None \<Rightarrow> True | Some v \<Rightarrow> \<not> truthy v))"


section \<open>Example values\<close>

definition ex_time :: datetime where
  "ex_time = \<lparr>year = 2024, month = 3, day = 5, hour = 1, minute = 2, second = 3, microsecond = 0\<rparr>"

definition ex_patient :: patient where
  "ex_patient = \<lparr>pat_id = 1, pat_patient_hash = Some ''abcdef0123456789'',
     pat_first_name_hash = None, pat_last_name_hash = None, pat_birth_date_hash = None,
     pat_created_at = Some ex_time\<rparr>"

definition ex_user :: user where
  "ex_user = \<lparr>user_id = 7, user_username = Some ''drwho'', user_email = None,
     user_hashed_password = None, user_role = Some ''practitioner'',
     user_wallet_address = None, user_is_active = Some True,
     user_created_at = Some ex_time, user_updated_at = Some ex_time\<rparr>"

definition ex_procedure :: procedure where
  "ex_procedure = \<lparr>proc_id = 1, proc_blockchain_id = None,
     proc_patient_hash = Some ''abcdef0123456789'', proc_practitioner_id = Some 7,
     proc_procedure_type = Some ''stent'', proc_duration = Some 45,
     proc_consent_hash = None, proc_metadata = None, proc_blockchain_tx_hash = None,
     proc_created_at = Some ex_time, proc_updated_at = Some ex_time\<rparr>"

definition ex_db :: database where
  "ex_db = \<lparr>users = [ex_user], patients = [ex_patient], procedures = [ex_procedure],
            fhir_resources = []\<rparr>"

definition ex_request :: procedure_create where
  "ex_request = \<lparr>pc_patient_hash = ''abcdef0123456789'', pc_procedure_type = ''stent'',
     pc_duration = 45, pc_consent_hash = ''c0ffee'', pc_metadata = None\<rparr>"

definition ex_env :: environment where
  "ex_env = \<lparr>env_BLOCKCHAIN_URL = None,
     env_CONTRACT_ADDRESS = Some ''0x1111111111111111111111111111111111111111'',
     env_PRACTITIONER_PRIVATE_KEY = Some ''0xkey'', node_is_connected = True,
     abi_file = AbiLoaded,
     contract_raises =
       (\<lambda>a. if a = ''0x1111111111111111111111111111111111111111'' then None
            else Some (InvalidAddress
                   ''Address must be 20 bytes, as a hex string with a 0x prefix'')),
     node_submit = (\<lambda>args. Receipt ''0xabc'' 42 21000),
     utcnow = ex_time, utcnow_onupdate = ex_time\<rparr>"

definition ex_globals :: globals where
  "ex_globals = \<lparr>web3 = None, contract = None, contract_address = None\<rparr>"


definition ex_laser :: procedure where
  "ex_laser = ex_procedure\<lparr>proc_procedure_type := Some ''laser''\<rparr>"

definition ex_anchored :: procedure where
  "ex_anchored = ex_procedure\<lparr>proc_blockchain_id := Some 1,
     proc_blockchain_tx_hash := Some ''0xabc'', proc_consent_hash := Some ''c0ffee''\<rparr>"

definition ex_minimal_claim :: dict where
  "ex_minimal_claim =
     [(''resourceType'', JStr ''Claim''), (''id'', JStr ''claim-1''), (''status'', JStr ''draft''),
      (''type'', JNull), (''patient'', JNull), (''provider'', JNull)]"

text \<open>The claim of procedure 1 is generated, a consent is uploaded for the procedure, and
  the claim is generated again.\<close>

definition ex_db_first :: database where
  "ex_db_first = snd (generate_fhir_claim ex_env 1 ex_db)"

definition ex_consented :: procedure where
  "ex_consented = ex_procedure\<lparr>proc_consent_hash := Some ''c0ffee''\<rparr>"

definition ex_db_consent :: database where
  "ex_db_consent = ex_db_first\<lparr>procedures := [ex_consented]\<rparr>"

definition ex_db_second :: database where
  "ex_db_second = snd (generate_fhir_claim ex_env 1 ex_db_consent)"


definition ex_env_unreachable :: environment where
  "ex_env_unreachable = ex_env\<lparr>node_is_connected := False\<rparr>"

definition ex_env_unconfigured :: environment where
  "ex_env_unconfigured = ex_env\<lparr>env_CONTRACT_ADDRESS := None\<rparr>"

definition ex_env_bad_address :: environment where
  "ex_env_bad_address = ex_env\<lparr>env_CONTRACT_ADDRESS := Some ''0xC0''\<rparr>"

definition ex_env_bad_abi :: environment where
  "ex_env_bad_abi =
     ex_env\<lparr>abi_file := AbiRaises (JSONDecodeError ''Expecting value: line 1 column 1 (char 0)'')\<rparr>"

definition ex_upper :: procedure where
  "ex_upper = ex_procedure\<lparr>proc_procedure_type := Some ''STENT''\<rparr>"

definition ex_env_reverting :: environment where
  "ex_env_reverting = ex_env\<lparr>node_submit := (\<lambda>args. Raises ''execution reverted'')\<rparr>"


section \<open>Dictionaries\<close>

lemma dict_get_dict_set:
  "dict_get (dict_set d k v) k' = (if k' = k then Some v else dict_get d k')"
  by (induction d k v rule: dict_set.induct) (auto simp: dict_get_def)

lemma keys_dict_set:
  "map fst (dict_set d k v) = (if k \<in> set (map fst d) then map fst d else map fst d @ [k])"
  by (induction d k v rule: dict_set.induct) auto

lemma dict_contains_dict_set:
  "dict_contains (dict_set d k v) k' = (k' = k \<or> dict_contains d k')"
  unfolding dict_contains_def keys_dict_set by auto

lemma dict_contains_iff_get: "dict_contains d k = (dict_get d k \<noteq> None)"
  by (induction d) (auto simp: dict_contains_def dict_get_def)


lemma find_None_iff': "(find P xs = None) = (\<forall>x \<in> set xs. \<not> P x)"
  by (induction xs) auto


section \<open>The claim builder\<close>

lemma create_fhir_claim_Inr_iff:
  "(\<exists>c. create_fhir_claim p pa pr = Inr c) = well_formed p pa"
  by (auto simp: create_fhir_claim_def well_formed_def Let_def split: option.splits)

lemma dict_get_claim_literal:
  "dict_get (claim_literal p pr sc ptype ph created updated) ''resourceType'' = Some (JStr ''Claim'')"
  "dict_get (claim_literal p pr sc ptype ph created updated) ''status'' = Some (JStr ''active'')"
  "dict_get (claim_literal p pr sc ptype ph created updated) ''meta'' = Some (JObj (claim_meta updated))"
  "dict_get (claim_literal p pr sc ptype ph created updated) ''supportingInfo'' = None"
  "dict_get (claim_literal p pr sc ptype ph created updated) ''procedure'' =
     Some (JList [JObj
          [(''sequence'', JInt 1),
           (''procedureCodeableConcept'', JObj
               [(''coding'', JList [snomed_coding sc]),
                (''text'', JStr ptype)]),
           (''date'', JStr (isoformat created))]])"
  by (simp_all add: claim_literal_def dict_get_def)

lemma dict_get_claim_literal_item:
  "dict_get (claim_literal p pr sc ptype ph created updated) ''item'' =
     Some (JList [JObj
          [(''sequence'', JInt 1),
           (''careTeamSequence'', JList [JInt 1]),
           (''productOrService'', JObj [(''coding'', JList [snomed_coding sc])]),
           (''servicedDate'', JStr (isoformat created)),
           (''quantity'', JObj [(''value'', JInt 1), (''unit'', JStr ''procedure'')])]])"
  by (simp add: claim_literal_def dict_get_def)

lemma dict_contains_claim_literal:
  "dict_contains (claim_literal p pr sc ptype ph created updated) k =
     (k \<in> {''resourceType'', ''id'', ''status'', ''type'', ''use'', ''patient'', ''created'',
            ''provider'', ''priority'', ''procedure'', ''insurance'', ''item'', ''total'', ''meta''})"
  by (simp add: claim_literal_def dict_contains_def)

lemma dict_get_claim_meta_extension: "dict_get (claim_meta updated) ''extension'' = None"
  by (simp add: claim_meta_def dict_get_def)

lemma create_fhir_claim_Inr:
  assumes "create_fhir_claim p pa pr = Inr c"
  obtains ptype ph created updated where
    "proc_procedure_type p = Some ptype" "pat_patient_hash pa = Some ph"
    "proc_created_at p = Some created" "proc_updated_at p = Some updated"
    "c = built_claim p pr ptype ph created updated"
  using assms
  by (auto simp: create_fhir_claim_def get_snomed_code_def built_claim_def Let_def
           split: option.splits)

lemma built_claim_procedure:
  "dict_get (built_claim p pr ptype ph created updated) ''procedure'' =
     Some (JList [JObj
          [(''sequence'', JInt 1),
           (''procedureCodeableConcept'', JObj
               [(''coding'', JList [snomed_coding (get_snomed_code ptype)]),
                (''text'', JStr ptype)]),
           (''date'', JStr (isoformat created))]])"
  by (simp add: built_claim_def Let_def dict_get_dict_set dict_get_claim_literal)

lemma built_claim_item:
  "dict_get (built_claim p pr ptype ph created updated) ''item'' =
     Some (JList [JObj
          [(''sequence'', JInt 1),
           (''careTeamSequence'', JList [JInt 1]),
           (''productOrService'', JObj [(''coding'', JList [snomed_coding (get_snomed_code ptype)])]),
           (''servicedDate'', JStr (isoformat created)),
           (''quantity'', JObj [(''value'', JInt 1), (''unit'', JStr ''procedure'')])]])"
  by (simp add: built_claim_def Let_def dict_get_dict_set dict_get_claim_literal_item)

lemma built_claim_procedure_coding:
  "claim_procedure_coding (built_claim p pr ptype ph created updated) =
     Some (JList [snomed_coding (get_snomed_code ptype)])"
  unfolding claim_procedure_coding_def built_claim_procedure by (simp add: dict_get_def)

lemma built_claim_item_coding:
  "claim_item_coding (built_claim p pr ptype ph created updated) =
     Some (JList [snomed_coding (get_snomed_code ptype)])"
  unfolding claim_item_coding_def built_claim_item by (simp add: dict_get_def)

lemma built_claim_meta:
  "dict_get (built_claim p pr ptype ph created updated) ''meta'' =
     Some (JObj (if truthy_str (proc_blockchain_tx_hash p)
                 then dict_set (claim_meta updated) ''extension''
                        (blockchain_extension (the (proc_blockchain_tx_hash p)))
                 else claim_meta updated))"
  by (simp add: built_claim_def Let_def dict_get_dict_set dict_get_claim_literal)

lemma built_claim_meta_extension:
  "claim_meta_extension (built_claim p pr ptype ph created updated) =
     (if truthy_str (proc_blockchain_tx_hash p)
      then Some (blockchain_extension (the (proc_blockchain_tx_hash p))) else None)"
  unfolding claim_meta_extension_def built_claim_meta
  by (simp add: dict_get_dict_set dict_get_claim_meta_extension)

lemma built_claim_supportingInfo:
  "dict_get (built_claim p pr ptype ph created updated) ''supportingInfo'' =
     (if truthy_str (proc_consent_hash p)
      then Some (consent_supporting_info (the (proc_consent_hash p))) else None)"
  by (simp add: built_claim_def Let_def dict_get_dict_set dict_get_claim_literal)

lemma built_claim_consent_value:
  "claim_consent_value (built_claim p pr ptype ph created updated) =
     (if truthy_str (proc_consent_hash p)
      then Some (JStr (the (proc_consent_hash p))) else None)"
  unfolding claim_consent_value_def built_claim_supportingInfo
  by (simp add: consent_supporting_info_def dict_get_def)

lemma validate_claim_literal_like:
  assumes "dict_get c ''resourceType'' = Some (JStr ''Claim'')"
    and "dict_get c ''status'' = Some (JStr ''active'')"
    and "\<forall>k \<in> set required_fields. dict_contains c k"
    and "dict_get c ''procedure'' = Some (JList [JObj
          [(''sequence'', s),
           (''procedureCodeableConcept'', pc),
           (''date'', d)]])"
  shows "validate_fhir_claim c =
           Inr [(''valid'', JBool True), (''errors'', JList []), (''warnings'', JList [])]"
proof -
  have m: "missing_field_errors c = []"
    using assms(3) by (simp add: missing_field_errors_def filter_empty_conv)
  have pc: "dict_contains c ''procedure''"
    using assms(4) by (simp add: dict_contains_iff_get)
  show ?thesis
    unfolding validate_fhir_claim_def Let_def m
    by (simp add: assms(1,2,4) pc valid_statuses_def dict_contains_def)
qed

lemma built_claim_resourceType:
  "dict_get (built_claim p pr ptype ph created updated) ''resourceType'' = Some (JStr ''Claim'')"
  by (simp add: built_claim_def Let_def dict_get_dict_set dict_get_claim_literal)

lemma built_claim_status:
  "dict_get (built_claim p pr ptype ph created updated) ''status'' = Some (JStr ''active'')"
  by (simp add: built_claim_def Let_def dict_get_dict_set dict_get_claim_literal)

lemma built_claim_required:
  "\<forall>k \<in> set required_fields. dict_contains (built_claim p pr ptype ph created updated) k"
  by (simp add: built_claim_def Let_def dict_contains_dict_set dict_contains_claim_literal
        required_fields_def)

lemma create_fhir_claim_examples:
  "create_fhir_claim ex_procedure ex_patient ex_user =
     Inr (built_claim ex_procedure ex_user ''stent'' ''abcdef0123456789'' ex_time ex_time)"
  "create_fhir_claim ex_laser ex_patient ex_user =
     Inr (built_claim ex_laser ex_user ''laser'' ''abcdef0123456789'' ex_time ex_time)"
  "create_fhir_claim ex_anchored ex_patient ex_user =
     Inr (built_claim ex_anchored ex_user ''stent'' ''abcdef0123456789'' ex_time ex_time)"
  by (simp_all add: create_fhir_claim_def built_claim_def get_snomed_code_def Let_def
        ex_procedure_def ex_laser_def ex_anchored_def ex_patient_def)

text \<open>
  Claim C3. For every well-formed triple (the procedure type, the patient hash and the two
  timestamps of the procedure are set), \<open>create_fhir_claim\<close> returns a document, and
  \<open>validate_fhir_claim\<close> returns \<open>valid = True\<close> with an empty error list on it.
\<close>

theorem create_fhir_claim_valid:
  assumes "well_formed p pa"
  shows "\<exists>c. create_fhir_claim p pa pr = Inr c
           \<and> validate_fhir_claim c =
               Inr [(''valid'', JBool True), (''errors'', JList []), (''warnings'', JList [])]"
proof -
  from assms obtain c where c: "create_fhir_claim p pa pr = Inr c"
    using create_fhir_claim_Inr_iff by blast
  then obtain ptype ph created updated where
    eq: "c = built_claim p pr ptype ph created updated"
    by (blast elim: create_fhir_claim_Inr)
  have "validate_fhir_claim c =
           Inr [(''valid'', JBool True), (''errors'', JList []), (''warnings'', JList [])]"
    unfolding eq
    by (rule validate_claim_literal_like
          [OF built_claim_resourceType built_claim_status built_claim_required
              built_claim_procedure])
  with c show ?thesis by blast
qed

text \<open>Witness for C3: the example triple is well-formed and its claim validates.\<close>

theorem create_fhir_claim_valid_witness:
  "well_formed ex_procedure ex_patient
   \<and> (\<exists>c. create_fhir_claim ex_procedure ex_patient ex_user = Inr c
          \<and> validate_fhir_claim c =
              Inr [(''valid'', JBool True), (''errors'', JList []), (''warnings'', JList [])])"
proof -
  have h: "well_formed ex_procedure ex_patient"
    by (simp add: well_formed_def ex_procedure_def ex_patient_def)
  show ?thesis using h create_fhir_claim_valid [OF h, of ex_user] by simp
qed


section \<open>The catalog lookup\<close>

lemma get_snomed_code_known:
  "dict_get SNOMED_PROCEDURE_CODES k = Some e \<Longrightarrow> lower s = k \<Longrightarrow> get_snomed_code s = e"
  by (simp add: get_snomed_code_def dict_get_default_def dict_get_def)

lemma get_snomed_code_unknown:
  "\<not> dict_contains SNOMED_PROCEDURE_CODES (lower s) \<Longrightarrow> get_snomed_code s = default_snomed"
  by (simp add: get_snomed_code_def dict_get_default_def dict_contains_iff_get dict_get_def)


text \<open>
  Claim C6. The lookup is case-insensitive: two procedure types with the same lowercasing
  get the same triple, and a type whose lowercasing is a key of the catalog gets the entry
  of that key. A type whose lowercasing is not a key gets the fixed default triple. The
  lookup inside \<open>create_fhir_claim\<close> does the same and never fails: for every procedure
  type, a triple with its patient hash and timestamps set yields a claim, whose procedure
  entry and item carry the coding of the triple that \<open>get_snomed_code\<close> gives for the type,
  which is the default triple when the lowercased type is not a key.
\<close>

theorem get_snomed_code_lookup:
  "(lower s = lower t \<longrightarrow> get_snomed_code s = get_snomed_code t)
   \<and> (\<forall>e. dict_get SNOMED_PROCEDURE_CODES (lower s) = Some e \<longrightarrow> get_snomed_code s = e)
   \<and> (\<not> dict_contains SNOMED_PROCEDURE_CODES (lower s) \<longrightarrow>
        get_snomed_code s =
          \<lparr>code = ''261190007'', display = ''Percutaneous puncture'',
           system = ''http://snomed.info/sct''\<rparr>
        \<and> (\<forall>p pa pr c. proc_procedure_type p = Some s \<and> create_fhir_claim p pa pr = Inr c \<longrightarrow>
              claim_procedure_coding c =
                Some (JList [JObj [(''system'', JStr ''http://snomed.info/sct''),
                                   (''code'', JStr ''261190007''),
                                   (''display'', JStr ''Percutaneous puncture'')]])
              \<and> claim_item_coding c =
                Some (JList [JObj [(''system'', JStr ''http://snomed.info/sct''),
                                   (''code'', JStr ''261190007''),
                                   (''display'', JStr ''Percutaneous puncture'')]])))
   \<and> (\<forall>p pa pr. proc_procedure_type p = Some s \<and> pat_patient_hash pa \<noteq> None
          \<and> proc_created_at p \<noteq> None \<and> proc_updated_at p \<noteq> None \<longrightarrow>
        (\<exists>c. create_fhir_claim p pa pr = Inr c
           \<and> claim_procedure_coding c =
                Some (JList [JObj [(''system'', JStr (system (get_snomed_code s))),
                                   (''code'', JStr (code (get_snomed_code s))),
                                   (''display'', JStr (display (get_snomed_code s)))]])
           \<and> claim_item_coding c =
                Some (JList [JObj [(''system'', JStr (system (get_snomed_code s))),
                                   (''code'', JStr (code (get_snomed_code s))),
                                   (''display'', JStr (display (get_snomed_code s)))]])
           \<and> (\<not> dict_contains SNOMED_PROCEDURE_CODES (lower s) \<longrightarrow>
                claim_procedure_coding c =
                  Some (JList [JObj [(''system'', JStr ''http://snomed.info/sct''),
                                     (''code'', JStr ''261190007''),
                                     (''display'', JStr ''Percutaneous puncture'')]])
                \<and> claim_item_coding c =
                  Some (JList [JObj [(''system'', JStr ''http://snomed.info/sct''),
                                     (''code'', JStr ''261190007''),
                                     (''display'', JStr ''Percutaneous puncture'')]]))))"
proof (intro conjI impI allI)
  assume "lower s = lower t"
  then show "get_snomed_code s = get_snomed_code t" by (simp add: get_snomed_code_def)
next
  fix e assume "dict_get SNOMED_PROCEDURE_CODES (lower s) = Some e"
  then show "get_snomed_code s = e" by (rule get_snomed_code_known) simp
next
  assume u: "\<not> dict_contains SNOMED_PROCEDURE_CODES (lower s)"
  then show "get_snomed_code s =
          \<lparr>code = ''261190007'', display = ''Percutaneous puncture'',
           system = ''http://snomed.info/sct''\<rparr>"
    by (simp add: get_snomed_code_unknown default_snomed_def)
next
  fix p pa pr c
  assume u: "\<not> dict_contains SNOMED_PROCEDURE_CODES (lower s)"
    and h: "proc_procedure_type p = Some s \<and> create_fhir_claim p pa pr = Inr c"
  from h obtain ptype ph created updated where
    "proc_procedure_type p = Some ptype" and c: "c = built_claim p pr ptype ph created updated"
    by (blast elim: create_fhir_claim_Inr)
  with h have [simp]: "ptype = s" by simp
  show "claim_procedure_coding c =
                Some (JList [JObj [(''system'', JStr ''http://snomed.info/sct''),
                                   (''code'', JStr ''261190007''),
                                   (''display'', JStr ''Percutaneous puncture'')]])"
    by (simp add: c built_claim_procedure_coding get_snomed_code_unknown [OF u]
          default_snomed_def snomed_coding_def)
  show "claim_item_coding c =
                Some (JList [JObj [(''system'', JStr ''http://snomed.info/sct''),
                                   (''code'', JStr ''261190007''),
                                   (''display'', JStr ''Percutaneous puncture'')]])"
    by (simp add: c built_claim_item_coding get_snomed_code_unknown [OF u]
          default_snomed_def snomed_coding_def)
next
  fix p :: procedure and pa :: patient and pr :: user
  assume h: "proc_procedure_type p = Some s \<and> pat_patient_hash pa \<noteq> None
          \<and> proc_created_at p \<noteq> None \<and> proc_updated_at p \<noteq> None"
  then have "well_formed p pa" by (simp add: well_formed_def)
  then obtain c where cc: "create_fhir_claim p pa pr = Inr c"
    using create_fhir_claim_Inr_iff by blast
  then obtain ptype ph created updated where
    "proc_procedure_type p = Some ptype" and c: "c = built_claim p pr ptype ph created updated"
    by (blast elim: create_fhir_claim_Inr)
  with h have [simp]: "ptype = s" by simp
  have pc: "claim_procedure_coding c =
                Some (JList [JObj [(''system'', JStr (system (get_snomed_code s))),
                                   (''code'', JStr (code (get_snomed_code s))),
                                   (''display'', JStr (display (get_snomed_code s)))]])"
    by (simp add: c built_claim_procedure_coding snomed_coding_def)
  have ic: "claim_item_coding c =
                Some (JList [JObj [(''system'', JStr (system (get_snomed_code s))),
                                   (''code'', JStr (code (get_snomed_code s))),
                                   (''display'', JStr (display (get_snomed_code s)))]])"
    by (simp add: c built_claim_item_coding snomed_coding_def)
  have d: "\<not> dict_contains SNOMED_PROCEDURE_CODES (lower s) \<longrightarrow>
                claim_procedure_coding c =
                  Some (JList [JObj [(''system'', JStr ''http://snomed.info/sct''),
                                     (''code'', JStr ''261190007''),
                                     (''display'', JStr ''Percutaneous puncture'')]])
                \<and> claim_item_coding c =
                  Some (JList [JObj [(''system'', JStr ''http://snomed.info/sct''),
                                     (''code'', JStr ''261190007''),
                                     (''display'', JStr ''Percutaneous puncture'')]])"
    by (simp add: pc ic get_snomed_code_unknown default_snomed_def)
  from cc pc ic d
  show "\<exists>c. create_fhir_claim p pa pr = Inr c
           \<and> claim_procedure_coding c =
                Some (JList [JObj [(''system'', JStr (system (get_snomed_code s))),
                                   (''code'', JStr (code (get_snomed_code s))),
                                   (''display'', JStr (display (get_snomed_code s)))]])
           \<and> claim_item_coding c =
                Some (JList [JObj [(''system'', JStr (system (get_snomed_code s))),
                                   (''code'', JStr (code (get_snomed_code s))),
                                   (''display'', JStr (display (get_snomed_code s)))]])
           \<and> (\<not> dict_contains SNOMED_PROCEDURE_CODES (lower s) \<longrightarrow>
                claim_procedure_coding c =
                  Some (JList [JObj [(''system'', JStr ''http://snomed.info/sct''),
                                     (''code'', JStr ''261190007''),
                                     (''display'', JStr ''Percutaneous puncture'')]])
                \<and> claim_item_coding c =
                  Some (JList [JObj [(''system'', JStr ''http://snomed.info/sct''),
                                     (''code'', JStr ''261190007''),
                                     (''display'', JStr ''Percutaneous puncture'')]]))"
    by blast
qed

text \<open>Witness for C6: \<open>STENT\<close> resolves to the entry of \<open>stent\<close>, and \<open>laser\<close>, which is
  not in the catalog, resolves to the default triple; \<open>create_fhir_claim\<close> returns a claim
  for a procedure of type \<open>laser\<close>, with the default coding, and for a procedure of type
  \<open>STENT\<close>, with the coding of \<open>stent\<close>.\<close>

theorem get_snomed_code_lookup_witness:
  "get_snomed_code ''STENT'' = get_snomed_code ''stent''
   \<and> get_snomed_code ''STENT'' =
       \<lparr>code = ''384692006'', display = ''Insertion of stent'',
        system = ''http://snomed.info/sct''\<rparr>
   \<and> get_snomed_code ''laser'' =
       \<lparr>code = ''261190007'', display = ''Percutaneous puncture'',
        system = ''http://snomed.info/sct''\<rparr>
   \<and> (\<exists>c. create_fhir_claim ex_laser ex_patient ex_user = Inr c
          \<and> claim_procedure_coding c =
              Some (JList [JObj [(''system'', JStr ''http://snomed.info/sct''),
                                 (''code'', JStr ''261190007''),
                                 (''display'', JStr ''Percutaneous puncture'')]])
          \<and> claim_item_coding c =
              Some (JList [JObj [(''system'', JStr ''http://snomed.info/sct''),
                                 (''code'', JStr ''261190007''),
                                 (''display'', JStr ''Percutaneous puncture'')]]))
   \<and> (\<exists>c. create_fhir_claim ex_upper ex_patient ex_user = Inr c
          \<and> claim_procedure_coding c =
              Some (JList [JObj [(''system'', JStr ''http://snomed.info/sct''),
                                 (''code'', JStr ''384692006''),
                                 (''display'', JStr ''Insertion of stent'')]]))"
proof -
  have l1: "lower ''STENT'' = lower ''stent''" by code_simp
  have l2: "dict_get SNOMED_PROCEDURE_CODES (lower ''STENT'') =
              Some \<lparr>code = ''384692006'', display = ''Insertion of stent'',
                    system = ''http://snomed.info/sct''\<rparr>" by code_simp
  have l3: "\<not> dict_contains SNOMED_PROCEDURE_CODES (lower ''laser'')" by code_simp
  have l4: "proc_procedure_type ex_laser = Some ''laser'' \<and> pat_patient_hash ex_patient \<noteq> None
          \<and> proc_created_at ex_laser \<noteq> None \<and> proc_updated_at ex_laser \<noteq> None"
    by (simp add: ex_laser_def ex_procedure_def ex_patient_def)
  have l5: "proc_procedure_type ex_upper = Some ''STENT'' \<and> pat_patient_hash ex_patient \<noteq> None
          \<and> proc_created_at ex_upper \<noteq> None \<and> proc_updated_at ex_upper \<noteq> None"
    by (simp add: ex_upper_def ex_procedure_def ex_patient_def)
  note a = get_snomed_code_lookup [of "''STENT''" "''stent''"]
  note b = get_snomed_code_lookup [of "''laser''" "''laser''"]
  from a l1 have "get_snomed_code ''STENT'' = get_snomed_code ''stent''" by blast
  moreover from a l2 have g: "get_snomed_code ''STENT'' =
       \<lparr>code = ''384692006'', display = ''Insertion of stent'',
        system = ''http://snomed.info/sct''\<rparr>" by blast
  moreover from b l3 have "get_snomed_code ''laser'' =
       \<lparr>code = ''261190007'', display = ''Percutaneous puncture'',
        system = ''http://snomed.info/sct''\<rparr>" by blast
  moreover from b l3 l4
  have "\<exists>c. create_fhir_claim ex_laser ex_patient ex_user = Inr c
          \<and> claim_procedure_coding c =
              Some (JList [JObj [(''system'', JStr ''http://snomed.info/sct''),
                                 (''code'', JStr ''261190007''),
                                 (''display'', JStr ''Percutaneous puncture'')]])
          \<and> claim_item_coding c =
              Some (JList [JObj [(''system'', JStr ''http://snomed.info/sct''),
                                 (''code'', JStr ''261190007''),
                                 (''display'', JStr ''Percutaneous puncture'')]])"
    by blast
  moreover from a l5 obtain c where
    "create_fhir_claim ex_upper ex_patient ex_user = Inr c"
    "claim_procedure_coding c =
       Some (JList [JObj [(''system'', JStr (system (get_snomed_code ''STENT''))),
                          (''code'', JStr (code (get_snomed_code ''STENT''))),
                          (''display'', JStr (display (get_snomed_code ''STENT'')))]])"
    by blast
  then have "\<exists>c. create_fhir_claim ex_upper ex_patient ex_user = Inr c
          \<and> claim_procedure_coding c =
              Some (JList [JObj [(''system'', JStr ''http://snomed.info/sct''),
                                 (''code'', JStr ''384692006''),
                                 (''display'', JStr ''Insertion of stent'')]])"
    by (simp add: g)
  ultimately show ?thesis by blast
qed


section \<open>Provenance and consent sections of the claim\<close>

text \<open>
  Claim C7. A field carries a hash when it holds a non-empty string (\<open>None\<close> and the empty
  string are both false in the \<open>if\<close> of the builder). The claim has \<open>meta.extension\<close> exactly
  when the record carries a transaction hash, and then that extension is the single
  blockchain-transaction entry whose \<open>valueString\<close> is the hash; the claim has
  \<open>supportingInfo\<close> exactly when the record carries a consent hash, and then the
  \<open>valueString\<close> of its entry is the consent hash.
\<close>

theorem create_fhir_claim_provenance:
  assumes "create_fhir_claim p pa pr = Inr c"
  shows "(claim_meta_extension c \<noteq> None) = (\<exists>h. proc_blockchain_tx_hash p = Some h \<and> h \<noteq> [])
     \<and> (\<forall>h. proc_blockchain_tx_hash p = Some h \<and> h \<noteq> [] \<longrightarrow>
          claim_meta_extension c =
            Some (JList [JObj [(''url'', JStr ''http://radiology-dapp.com/blockchain-transaction''),
                               (''valueString'', JStr h)]]))
     \<and> dict_contains c ''supportingInfo'' = (\<exists>h. proc_consent_hash p = Some h \<and> h \<noteq> [])
     \<and> (\<forall>h. proc_consent_hash p = Some h \<and> h \<noteq> [] \<longrightarrow>
          claim_consent_value c = Some (JStr h))"
proof -
  from assms obtain ptype ph created updated where
    c: "c = built_claim p pr ptype ph created updated"
    by (blast elim: create_fhir_claim_Inr)
  have t: "\<And>x. truthy_str x = (\<exists>h. x = Some h \<and> h \<noteq> [])"
    by (case_tac x) simp_all
  show ?thesis
    unfolding c
    by (auto simp: built_claim_meta_extension built_claim_supportingInfo dict_contains_iff_get
          built_claim_consent_value t blockchain_extension_def)
qed


text \<open>Witness for C7: a record anchored by transaction \<open>0xabc\<close> with consent \<open>c0ffee\<close>.\<close>

theorem create_fhir_claim_provenance_witness:
  "create_fhir_claim ex_anchored ex_patient ex_user =
     Inr (built_claim ex_anchored ex_user ''stent'' ''abcdef0123456789'' ex_time ex_time)
   \<and> claim_meta_extension
        (built_claim ex_anchored ex_user ''stent'' ''abcdef0123456789'' ex_time ex_time) =
       Some (JList [JObj [(''url'', JStr ''http://radiology-dapp.com/blockchain-transaction''),
                          (''valueString'', JStr ''0xabc'')]])
   \<and> claim_consent_value
        (built_claim ex_anchored ex_user ''stent'' ''abcdef0123456789'' ex_time ex_time) =
       Some (JStr ''c0ffee'')"
proof -
  have t: "proc_blockchain_tx_hash ex_anchored = Some ''0xabc'' \<and> ''0xabc'' \<noteq> []"
    and c: "proc_consent_hash ex_anchored = Some ''c0ffee'' \<and> ''c0ffee'' \<noteq> []"
    by (simp_all add: ex_anchored_def ex_procedure_def)
  from create_fhir_claim_provenance [OF create_fhir_claim_examples(3)] t c
    create_fhir_claim_examples(3)
  show ?thesis by blast
qed

text \<open>
  Claim C8. For a record of type \<open>stent\<close> with duration 45, no consent hash and no ledger
  fields, the claim has the coding with code 384692006 and display \<open>Insertion of stent\<close> in
  its procedure entry and in its item, no \<open>supportingInfo\<close> section and no
  \<open>meta.extension\<close>.
\<close>

theorem create_fhir_claim_stent:
  assumes "proc_procedure_type p = Some ''stent''"
    and "proc_duration p = Some 45"
    and "proc_consent_hash p = None \<or> proc_consent_hash p = Some []"
    and "proc_blockchain_id p = None" and "proc_blockchain_tx_hash p = None"
    and "pat_patient_hash pa \<noteq> None"
    and "proc_created_at p \<noteq> None" and "proc_updated_at p \<noteq> None"
  shows "\<exists>c. create_fhir_claim p pa pr = Inr c
     \<and> claim_procedure_coding c =
          Some (JList [JObj [(''system'', JStr ''http://snomed.info/sct''),
                             (''code'', JStr ''384692006''),
                             (''display'', JStr ''Insertion of stent'')]])
     \<and> claim_item_coding c =
          Some (JList [JObj [(''system'', JStr ''http://snomed.info/sct''),
                             (''code'', JStr ''384692006''),
                             (''display'', JStr ''Insertion of stent'')]])
     \<and> \<not> dict_contains c ''supportingInfo''
     \<and> claim_meta_extension c = None"
proof -
  have "well_formed p pa" using assms by (simp add: well_formed_def)
  then obtain c where cc: "create_fhir_claim p pa pr = Inr c"
    using create_fhir_claim_Inr_iff by blast
  then obtain ptype ph created updated where
    pt: "proc_procedure_type p = Some ptype" and c: "c = built_claim p pr ptype ph created updated"
    by (blast elim: create_fhir_claim_Inr)
  from pt assms(1) have [simp]: "ptype = ''stent''" by simp
  have l: "lower ''stent'' = ''stent''" by code_simp
  have g: "get_snomed_code ''stent'' =
      \<lparr>code = ''384692006'', display = ''Insertion of stent'', system = ''http://snomed.info/sct''\<rparr>"
    by (rule get_snomed_code_known [OF _ l]) (simp add: SNOMED_PROCEDURE_CODES_def dict_get_def)
  have nt: "\<not> truthy_str (proc_consent_hash p)" "\<not> truthy_str (proc_blockchain_tx_hash p)"
    using assms(3,5) by auto
  have "claim_procedure_coding c =
          Some (JList [JObj [(''system'', JStr ''http://snomed.info/sct''),
                             (''code'', JStr ''384692006''),
                             (''display'', JStr ''Insertion of stent'')]])"
    by (simp add: c built_claim_procedure_coding g snomed_coding_def)
  moreover have "claim_item_coding c =
          Some (JList [JObj [(''system'', JStr ''http://snomed.info/sct''),
                             (''code'', JStr ''384692006''),
                             (''display'', JStr ''Insertion of stent'')]])"
    by (simp add: c built_claim_item_coding g snomed_coding_def)
  moreover have "\<not> dict_contains c ''supportingInfo''"
    by (simp add: c dict_contains_iff_get built_claim_supportingInfo nt)
  moreover have "claim_meta_extension c = None"
    by (simp add: c built_claim_meta_extension nt)
  ultimately show ?thesis using cc by blast
qed


text \<open>Witness for C8: the example procedure is such a record.\<close>

theorem create_fhir_claim_stent_witness:
  "proc_procedure_type ex_procedure = Some ''stent'' \<and> proc_duration ex_procedure = Some 45
   \<and> proc_consent_hash ex_procedure = None \<and> proc_blockchain_tx_hash ex_procedure = None
   \<and> (\<exists>c. create_fhir_claim ex_procedure ex_patient ex_user = Inr c
          \<and> claim_procedure_coding c =
               Some (JList [JObj [(''system'', JStr ''http://snomed.info/sct''),
                                  (''code'', JStr ''384692006''),
                                  (''display'', JStr ''Insertion of stent'')]])
          \<and> \<not> dict_contains c ''supportingInfo''
          \<and> claim_meta_extension c = None)"
proof -
  have h: "proc_procedure_type ex_procedure = Some ''stent''"
      "proc_duration ex_procedure = Some 45"
      "proc_consent_hash ex_procedure = None \<or> proc_consent_hash ex_procedure = Some []"
      "proc_blockchain_id ex_procedure = None"
      "proc_blockchain_tx_hash ex_procedure = None"
      "pat_patient_hash ex_patient \<noteq> None"
      "proc_created_at ex_procedure \<noteq> None"
      "proc_updated_at ex_procedure \<noteq> None"
    by (simp_all add: ex_procedure_def ex_patient_def)
  have n: "proc_consent_hash ex_procedure = None" by (simp add: ex_procedure_def)
  from create_fhir_claim_stent [OF h, of ex_user] h(1,2,5) n show ?thesis by blast
qed


section \<open>The validator\<close>

lemma py_in_container: "is_container e \<Longrightarrow> \<exists>b. py_in k e = Inr b"
  by (cases e) simp_all

lemma check_procedures_containers:
  "\<forall>e \<in> set entries. is_container e \<Longrightarrow>
     \<exists>errs'. check_procedures i entries errs = Inr (errs @ errs')
              \<and> (errs' = []) = list_all entry_ok entries"
proof (induction entries arbitrary: i errs)
  case Nil
  then show ?case by simp
next
  case (Cons e entries)
  then have ce: "is_container e" and rest: "\<forall>e \<in> set entries. is_container e" by simp_all
  from ce obtain b1 where b1: "py_in ''sequence'' e = Inr b1"
    using py_in_container by blast
  from ce obtain b2 where b2: "py_in ''procedureCodeableConcept'' e = Inr b2"
    using py_in_container by blast
  define errs1 where "errs1 = (if \<not> b1
                        then errs @ [''Sequence manquante pour la proc'' @ [CHR 0xE9]
                                       @ ''dure '' @ str_nat i]
                        else errs)"
  define errs2 where "errs2 = (if \<not> b2
                                then errs1 @ [''procedureCodeableConcept manquant pour la proc''
                                               @ [CHR 0xE9] @ ''dure '' @ str_nat i]
                                else errs1)"
  have step: "check_procedures i (e # entries) errs = check_procedures (Suc i) entries errs2"
    by (simp add: b1 b2 errs1_def errs2_def Let_def)
  from Cons.IH [OF rest, of "Suc i" errs2] obtain errs' where
    r: "check_procedures (Suc i) entries errs2 = Inr (errs2 @ errs')"
    and e: "(errs' = []) = list_all entry_ok entries" by blast
  obtain d where d: "errs2 = errs @ d" and dd: "(d = []) = (b1 \<and> b2)"
    by (cases b1; cases b2) (simp_all add: errs1_def errs2_def)
  have "entry_ok e = (b1 \<and> b2)" by (simp add: entry_ok_def b1 b2)
  with r e d dd step show ?case by auto
qed


text \<open>
  Claim C10. A document with \<open>resourceType\<close> \<open>Claim\<close>, an \<open>id\<close>, a status among the four
  allowed ones and \<open>type\<close>, \<open>patient\<close> and \<open>provider\<close> fields is valid when it has no
  \<open>procedure\<close> section, whatever else it holds or lacks. When it has a \<open>procedure\<close> list
  (of dictionaries, lists or strings), it is valid exactly when every entry that is present
  has a \<open>sequence\<close> and a \<open>procedureCodeableConcept\<close>.
\<close>

theorem validate_fhir_claim_required:
  assumes "dict_get claim ''resourceType'' = Some (JStr ''Claim'')"
    and "dict_contains claim ''id''"
    and "dict_get claim ''status'' = Some (JStr st)"
    and "st \<in> {''active'', ''cancelled'', ''draft'', ''entered-in-error''}"
    and "dict_contains claim ''type''"
    and "dict_contains claim ''patient''"
    and "dict_contains claim ''provider''"
  shows "(\<not> dict_contains claim ''procedure'' \<longrightarrow>
            validate_fhir_claim claim =
              Inr [(''valid'', JBool True), (''errors'', JList []), (''warnings'', JList [])])
       \<and> (\<forall>entries. dict_get claim ''procedure'' = Some (JList entries)
                     \<and> (\<forall>e \<in> set entries. is_container e) \<longrightarrow>
            (\<exists>errors. validate_fhir_claim claim =
                         Inr [(''valid'', JBool (list_all entry_ok entries)),
                              (''errors'', JList (map JStr errors)),
                              (''warnings'', JList [])]
                       \<and> (errors = []) = list_all entry_ok entries))"
proof -
  have rt: "dict_contains claim ''resourceType''" and stc: "dict_contains claim ''status''"
    using assms(1,3) by (simp_all add: dict_contains_iff_get)
  have m: "missing_field_errors claim = []"
    using assms(2,5,6,7) rt stc
    by (simp add: missing_field_errors_def required_fields_def)
  have s: "dict_get claim ''status'' \<in> set (map (\<lambda>s. Some (JStr s)) valid_statuses)"
    using assms(3,4) by (auto simp: valid_statuses_def)
  have a: "\<not> dict_contains claim ''procedure'' \<longrightarrow>
            validate_fhir_claim claim =
              Inr [(''valid'', JBool True), (''errors'', JList []), (''warnings'', JList [])]"
    using s by (simp add: validate_fhir_claim_def Let_def m assms(1))
  have b: "\<exists>errors. validate_fhir_claim claim =
                         Inr [(''valid'', JBool (list_all entry_ok entries)),
                              (''errors'', JList (map JStr errors)),
                              (''warnings'', JList [])]
                       \<and> (errors = []) = list_all entry_ok entries"
    if h: "dict_get claim ''procedure'' = Some (JList entries)"
      and c: "\<forall>e \<in> set entries. is_container e" for entries
  proof -
    from check_procedures_containers [OF c, of 0 "[]"] obtain errs' where
      r: "check_procedures 0 entries [] = Inr errs'"
      and e: "(errs' = []) = list_all entry_ok entries" by auto
    have pc: "dict_contains claim ''procedure''" using h by (simp add: dict_contains_iff_get)
    have "validate_fhir_claim claim =
            Inr [(''valid'', JBool (length errs' = 0)),
                 (''errors'', JList (map JStr errs')), (''warnings'', JList [])]"
      using s by (simp add: validate_fhir_claim_def Let_def m assms(1) pc h r)
    with e show ?thesis by auto
  qed
  from a b show ?thesis by blast
qed


text \<open>Witness for C10: the minimal document is valid; with a procedure entry that lacks
  the coded concept it is not.\<close>

theorem validate_fhir_claim_required_witness:
  "validate_fhir_claim ex_minimal_claim =
     Inr [(''valid'', JBool True), (''errors'', JList []), (''warnings'', JList [])]
   \<and> (\<exists>errors. validate_fhir_claim
                  (ex_minimal_claim @ [(''procedure'', JList [JObj [(''sequence'', JInt 1)]])]) =
                Inr [(''valid'', JBool False), (''errors'', JList (map JStr errors)),
                     (''warnings'', JList [])]
              \<and> errors \<noteq> [])"
proof -
  let ?d = "ex_minimal_claim @ [(''procedure'', JList [JObj [(''sequence'', JInt 1)]])]"
  have a: "dict_get ex_minimal_claim ''resourceType'' = Some (JStr ''Claim'')"
      "dict_contains ex_minimal_claim ''id''"
      "dict_get ex_minimal_claim ''status'' = Some (JStr ''draft'')"
      "''draft'' \<in> {''active'', ''cancelled'', ''draft'', ''entered-in-error''}"
      "dict_contains ex_minimal_claim ''type''"
      "dict_contains ex_minimal_claim ''patient''"
      "dict_contains ex_minimal_claim ''provider''"
    by (simp_all add: ex_minimal_claim_def dict_get_def dict_contains_def)
  have n: "\<not> dict_contains ex_minimal_claim ''procedure''"
    by (simp add: ex_minimal_claim_def dict_contains_def)
  have b: "dict_get ?d ''resourceType'' = Some (JStr ''Claim'')"
      "dict_contains ?d ''id''"
      "dict_get ?d ''status'' = Some (JStr ''draft'')"
      "''draft'' \<in> {''active'', ''cancelled'', ''draft'', ''entered-in-error''}"
      "dict_contains ?d ''type''"
      "dict_contains ?d ''patient''"
      "dict_contains ?d ''provider''"
    by (simp_all add: ex_minimal_claim_def dict_get_def dict_contains_def)
  have p: "dict_get ?d ''procedure'' = Some (JList [JObj [(''sequence'', JInt 1)]])
           \<and> (\<forall>e \<in> set [JObj [(''sequence'', JInt 1)]]. is_container e)"
    by (simp add: ex_minimal_claim_def dict_get_def)
  have q: "\<not> list_all entry_ok [JObj [(''sequence'', JInt 1)]]"
    by (simp add: entry_ok_def dict_contains_def)
  from validate_fhir_claim_required [OF a] n
  have "validate_fhir_claim ex_minimal_claim =
     Inr [(''valid'', JBool True), (''errors'', JList []), (''warnings'', JList [])]" by blast
  moreover from validate_fhir_claim_required [OF b] p q
  have "\<exists>errors. validate_fhir_claim ?d =
                Inr [(''valid'', JBool False), (''errors'', JList (map JStr errors)),
                     (''warnings'', JList [])]
              \<and> errors \<noteq> []" by force
  ultimately show ?thesis by blast
qed



section \<open>The ledger client\<close>

lemma init_web3_cases:
  "init_web3 env g =
     (if \<not> truthy_str (env_CONTRACT_ADDRESS env)
      then (Inl (ValueError (''CONTRACT_ADDRESS non d'' @ [CHR 0xE9]
                 @ ''finie dans les variables d'environnement'')),
            g\<lparr>contract_address := env_CONTRACT_ADDRESS env\<rparr>)
      else if \<not> node_is_connected env
      then (Inl (ConnectionError (''Impossible de se connecter au r'' @ [CHR 0xE9]
                      @ ''seau blockchain'')),
            g\<lparr>contract_address := env_CONTRACT_ADDRESS env,
              web3 := Some (case env_BLOCKCHAIN_URL env of
                           None \<Rightarrow> ''http://127.0.0.1:8545'' | Some u \<Rightarrow> u)\<rparr>)
      else
        (case abi_file env of
           AbiRaises e \<Rightarrow>
             (Inl e,
              g\<lparr>contract_address := env_CONTRACT_ADDRESS env,
                web3 := Some (case env_BLOCKCHAIN_URL env of
                           None \<Rightarrow> ''http://127.0.0.1:8545'' | Some u \<Rightarrow> u)\<rparr>)
         | _ \<Rightarrow>
             (case contract_raises env (the (env_CONTRACT_ADDRESS env)) of
                Some e \<Rightarrow>
                  (Inl e,
                   g\<lparr>contract_address := env_CONTRACT_ADDRESS env,
                     web3 := Some (case env_BLOCKCHAIN_URL env of
                           None \<Rightarrow> ''http://127.0.0.1:8545'' | Some u \<Rightarrow> u)\<rparr>)
              | None \<Rightarrow>
                  (Inr (),
                   g\<lparr>contract_address := env_CONTRACT_ADDRESS env,
                     web3 := Some (case env_BLOCKCHAIN_URL env of
                           None \<Rightarrow> ''http://127.0.0.1:8545'' | Some u \<Rightarrow> u),
                     contract := env_CONTRACT_ADDRESS env\<rparr>))))"
  by (simp add: init_web3_def Let_def split: abi_outcome.splits option.splits)

lemma ex_args_metadata: "(case pc_metadata ex_request of None \<Rightarrow> [] | Some m \<Rightarrow> m) = []"
  by (simp add: ex_request_def)

text \<open>
  Claim C4, as the code has it. \<open>init_web3\<close> is called before the \<open>try\<close> statement. When the
  contract handle is already set, or the lazy initialisation succeeds (a contract address
  is configured, the node answers, reading the ABI file does not raise anything but
  \<open>FileNotFoundError\<close>, and the contract handle is created), \<open>record_procedure_on_blockchain\<close>
  returns a dictionary and does not raise: the success dictionary with the transaction
  hash, block number and gas used of the receipt, or the failure dictionary carrying the
  text of the exception. When the handle is not set and the initialisation fails, the
  exception of \<open>init_web3\<close> leaves the function: \<open>ValueError\<close> without a contract address,
  \<open>ConnectionError\<close> for an unreachable node, the exception of the ABI load, or the
  exception of \<open>web3.eth.contract\<close>.
\<close>

theorem record_procedure_on_blockchain_outcomes:
  "(contract g \<noteq> None
      \<or> (truthy_str (env_CONTRACT_ADDRESS env) \<and> node_is_connected env
          \<and> (\<forall>e. abi_file env \<noteq> AbiRaises e)
          \<and> contract_raises env (the (env_CONTRACT_ADDRESS env)) = None) \<longrightarrow>
      (\<exists>res g'. record_procedure_on_blockchain env ph pt d ch m k g = (Inr res, g')
         \<and> (\<forall>tx_hash block_number gas_used.
               node_submit env (ph, pt, d, ch, m, k) = Receipt tx_hash block_number gas_used \<longrightarrow>
               res = [(''success'', JBool True), (''tx_hash'', JStr tx_hash),
                      (''block_number'', JInt block_number), (''gas_used'', JInt gas_used)])
         \<and> (\<forall>e. node_submit env (ph, pt, d, ch, m, k) = Raises e \<longrightarrow>
               res = [(''success'', JBool False), (''error'', JStr e)])))
   \<and> (contract g = None \<and> \<not> truthy_str (env_CONTRACT_ADDRESS env) \<longrightarrow>
        (\<exists>msg. fst (record_procedure_on_blockchain env ph pt d ch m k g) = Inl (ValueError msg)))
   \<and> (contract g = None \<and> truthy_str (env_CONTRACT_ADDRESS env) \<and> \<not> node_is_connected env \<longrightarrow>
        (\<exists>msg. fst (record_procedure_on_blockchain env ph pt d ch m k g)
                  = Inl (ConnectionError msg)))
   \<and> (\<forall>e. contract g = None \<and> truthy_str (env_CONTRACT_ADDRESS env) \<and> node_is_connected env
            \<and> abi_file env = AbiRaises e \<longrightarrow>
        fst (record_procedure_on_blockchain env ph pt d ch m k g) = Inl e)
   \<and> (\<forall>e. contract g = None \<and> truthy_str (env_CONTRACT_ADDRESS env) \<and> node_is_connected env
            \<and> (\<forall>e'. abi_file env \<noteq> AbiRaises e')
            \<and> contract_raises env (the (env_CONTRACT_ADDRESS env)) = Some e \<longrightarrow>
        fst (record_procedure_on_blockchain env ph pt d ch m k g) = Inl e)"
  by (cases "node_submit env (ph, pt, d, ch, m, k)"; cases "abi_file env")
     (auto simp: record_procedure_on_blockchain_def init_web3_cases)

text \<open>Witness for C4: a successful submission, a reverted one, a missing contract
  address, an unreachable node, a malformed ABI file and a malformed contract address.\<close>

theorem record_procedure_on_blockchain_outcomes_witness:
  "(\<exists>g'. record_procedure_on_blockchain ex_env
            ''abcdef0123456789'' ''stent'' 45 ''c0ffee'' [] ''0xkey'' ex_globals =
          (Inr [(''success'', JBool True), (''tx_hash'', JStr ''0xabc''),
                (''block_number'', JInt 42), (''gas_used'', JInt 21000)], g'))
   \<and> (\<exists>g'. record_procedure_on_blockchain ex_env_reverting
            ''abcdef0123456789'' ''stent'' 45 ''c0ffee'' [] ''0xkey'' ex_globals =
          (Inr [(''success'', JBool False), (''error'', JStr ''execution reverted'')], g'))
   \<and> (\<exists>msg. fst (record_procedure_on_blockchain (ex_env\<lparr>env_CONTRACT_ADDRESS := Some []\<rparr>)
            ''abcdef0123456789'' ''stent'' 45 ''c0ffee'' [] ''0xkey'' ex_globals) =
          Inl (ValueError msg))
   \<and> (\<exists>msg. fst (record_procedure_on_blockchain ex_env_unreachable
            ''abcdef0123456789'' ''stent'' 45 ''c0ffee'' [] ''0xkey'' ex_globals) =
          Inl (ConnectionError msg))
   \<and> fst (record_procedure_on_blockchain ex_env_bad_abi
            ''abcdef0123456789'' ''stent'' 45 ''c0ffee'' [] ''0xkey'' ex_globals) =
          Inl (JSONDecodeError ''Expecting value: line 1 column 1 (char 0)'')
   \<and> fst (record_procedure_on_blockchain ex_env_bad_address
            ''abcdef0123456789'' ''stent'' 45 ''c0ffee'' [] ''0xkey'' ex_globals) =
          Inl (InvalidAddress ''Address must be 20 bytes, as a hex string with a 0x prefix'')"
proof -
  have a: "contract ex_globals \<noteq> None
      \<or> (truthy_str (env_CONTRACT_ADDRESS ex_env) \<and> node_is_connected ex_env
          \<and> (\<forall>e. abi_file ex_env \<noteq> AbiRaises e)
          \<and> contract_raises ex_env (the (env_CONTRACT_ADDRESS ex_env)) = None)"
    and a': "node_submit ex_env
               (''abcdef0123456789'', ''stent'', 45, ''c0ffee'', [], ''0xkey'') =
             Receipt ''0xabc'' 42 21000"
    by (simp_all add: ex_env_def)
  have b: "contract ex_globals \<noteq> None
      \<or> (truthy_str (env_CONTRACT_ADDRESS ex_env_reverting) \<and> node_is_connected ex_env_reverting
          \<and> (\<forall>e. abi_file ex_env_reverting \<noteq> AbiRaises e)
          \<and> contract_raises ex_env_reverting (the (env_CONTRACT_ADDRESS ex_env_reverting)) = None)"
    and b': "node_submit ex_env_reverting
               (''abcdef0123456789'', ''stent'', 45, ''c0ffee'', [], ''0xkey'') =
             Raises ''execution reverted''"
    by (simp_all add: ex_env_reverting_def ex_env_def)
  have v: "contract ex_globals = None
           \<and> \<not> truthy_str (env_CONTRACT_ADDRESS (ex_env\<lparr>env_CONTRACT_ADDRESS := Some []\<rparr>))"
    by (simp add: ex_globals_def)
  have c: "contract ex_globals = None \<and> truthy_str (env_CONTRACT_ADDRESS ex_env_unreachable)
           \<and> \<not> node_is_connected ex_env_unreachable"
    by (simp add: ex_env_unreachable_def ex_env_def ex_globals_def)
  have d: "contract ex_globals = None \<and> truthy_str (env_CONTRACT_ADDRESS ex_env_bad_abi)
           \<and> node_is_connected ex_env_bad_abi
           \<and> abi_file ex_env_bad_abi
               = AbiRaises (JSONDecodeError ''Expecting value: line 1 column 1 (char 0)'')"
    by (simp add: ex_env_bad_abi_def ex_env_def ex_globals_def)
  have e: "contract ex_globals = None \<and> truthy_str (env_CONTRACT_ADDRESS ex_env_bad_address)
           \<and> node_is_connected ex_env_bad_address
           \<and> (\<forall>e'. abi_file ex_env_bad_address \<noteq> AbiRaises e')
           \<and> contract_raises ex_env_bad_address (the (env_CONTRACT_ADDRESS ex_env_bad_address))
               = Some (InvalidAddress
                   ''Address must be 20 bytes, as a hex string with a 0x prefix'')"
    by (simp add: ex_env_bad_address_def ex_env_def ex_globals_def)
  note t1 = record_procedure_on_blockchain_outcomes
      [of ex_globals ex_env "''abcdef0123456789''" "''stent''" 45 "''c0ffee''" "[]" "''0xkey''"]
  note t2 = record_procedure_on_blockchain_outcomes
      [of ex_globals ex_env_reverting "''abcdef0123456789''" "''stent''" 45 "''c0ffee''" "[]"
          "''0xkey''"]
  note t3 = record_procedure_on_blockchain_outcomes
      [of ex_globals "ex_env\<lparr>env_CONTRACT_ADDRESS := Some []\<rparr>" "''abcdef0123456789''"
          "''stent''" 45 "''c0ffee''" "[]" "''0xkey''"]
  note t4 = record_procedure_on_blockchain_outcomes
      [of ex_globals ex_env_unreachable "''abcdef0123456789''" "''stent''" 45 "''c0ffee''" "[]"
          "''0xkey''"]
  note t5 = record_procedure_on_blockchain_outcomes
      [of ex_globals ex_env_bad_abi "''abcdef0123456789''" "''stent''" 45 "''c0ffee''" "[]"
          "''0xkey''"]
  note t6 = record_procedure_on_blockchain_outcomes
      [of ex_globals ex_env_bad_address "''abcdef0123456789''" "''stent''" 45 "''c0ffee''" "[]"
          "''0xkey''"]
  from t1 [THEN conjunct1, THEN mp, OF a] obtain res g' where
    r: "record_procedure_on_blockchain ex_env
            ''abcdef0123456789'' ''stent'' 45 ''c0ffee'' [] ''0xkey'' ex_globals = (Inr res, g')"
    and s: "\<forall>tx_hash block_number gas_used.
               node_submit ex_env (''abcdef0123456789'', ''stent'', 45, ''c0ffee'', [], ''0xkey'')
                 = Receipt tx_hash block_number gas_used \<longrightarrow>
               res = [(''success'', JBool True), (''tx_hash'', JStr tx_hash),
                      (''block_number'', JInt block_number), (''gas_used'', JInt gas_used)]"
    by (elim exE conjE)
  from s [rule_format, OF a'] r
  have w1: "\<exists>g'. record_procedure_on_blockchain ex_env
            ''abcdef0123456789'' ''stent'' 45 ''c0ffee'' [] ''0xkey'' ex_globals =
          (Inr [(''success'', JBool True), (''tx_hash'', JStr ''0xabc''),
                (''block_number'', JInt 42), (''gas_used'', JInt 21000)], g')"
    by simp
  from t2 [THEN conjunct1, THEN mp, OF b] obtain res2 g2 where
    r2: "record_procedure_on_blockchain ex_env_reverting
            ''abcdef0123456789'' ''stent'' 45 ''c0ffee'' [] ''0xkey'' ex_globals = (Inr res2, g2)"
    and s2: "\<forall>e. node_submit ex_env_reverting
                    (''abcdef0123456789'', ''stent'', 45, ''c0ffee'', [], ''0xkey'') = Raises e \<longrightarrow>
               res2 = [(''success'', JBool False), (''error'', JStr e)]"
    by (elim exE conjE)
  from s2 [rule_format, OF b'] r2
  have w2: "\<exists>g'. record_procedure_on_blockchain ex_env_reverting
            ''abcdef0123456789'' ''stent'' 45 ''c0ffee'' [] ''0xkey'' ex_globals =
          (Inr [(''success'', JBool False), (''error'', JStr ''execution reverted'')], g')"
    by simp
  note w3 = t3 [THEN conjunct2, THEN conjunct1, THEN mp, OF v]
  note w4 = t4 [THEN conjunct2, THEN conjunct2, THEN conjunct1, THEN mp, OF c]
  note w5 = t5 [THEN conjunct2, THEN conjunct2, THEN conjunct2, THEN conjunct1, THEN spec,
                THEN mp, OF d]
  note w6 = t6 [THEN conjunct2, THEN conjunct2, THEN conjunct2, THEN conjunct2, THEN spec,
                THEN mp, OF e]
  show ?thesis
    by (intro conjI) (rule w1 w2 w3 w4 w5 w6)+
qed

text \<open>Counterexample to C4 as stated: with no contract handle yet and no
  \<open>CONTRACT_ADDRESS\<close> in the environment, the call raises \<open>ValueError\<close>.\<close>

theorem record_procedure_on_blockchain_raises:
  "fst (record_procedure_on_blockchain ex_env_unconfigured
          ''abcdef0123456789'' ''stent'' 45 ''c0ffee'' [] ''0xkey'' ex_globals)
     = Inl (ValueError (''CONTRACT_ADDRESS non d'' @ [CHR 0xE9]
                 @ ''finie dans les variables d'environnement''))"
  by (simp add: record_procedure_on_blockchain_def init_web3_cases ex_env_unconfigured_def
        ex_env_def ex_globals_def)


section \<open>Creating a procedure\<close>

text \<open>
  Claim C9. When the procedure type is not in \<open>PROCEDURE_TYPES\<close>, or no stored patient has
  the requested hash, \<open>create_procedure\<close> raises \<open>HTTPException\<close> (400 for the type, 404 for
  the patient) and the database and the module variables are those it was called with.
\<close>

theorem create_procedure_rejects:
  assumes "pc_procedure_type req \<notin> set PROCEDURE_TYPES
           \<or> (\<forall>pa \<in> set (patients db). pat_patient_hash pa \<noteq> Some (pc_patient_hash req))"
  shows "\<exists>status detail. create_procedure env req current_user db g
            = (Inl (HTTPException status detail), db, g)
          \<and> (status = 400 \<or> status = 404)
          \<and> (status = 400) = (pc_procedure_type req \<notin> set PROCEDURE_TYPES)"
proof (cases "pc_procedure_type req \<in> set PROCEDURE_TYPES")
  case False
  then show ?thesis by (simp add: create_procedure_def)
next
  case True
  with assms have "find (\<lambda>pa. pat_patient_hash pa = Some (pc_patient_hash req)) (patients db) = None"
    by (simp add: find_None_iff')
  with True show ?thesis by (simp add: create_procedure_def)
qed


text \<open>Witness for C9: the type \<open>Stent\<close> (the membership test is exact) and an unknown
  patient hash.\<close>

theorem create_procedure_rejects_witness:
  "(\<exists>detail. create_procedure ex_env (ex_request\<lparr>pc_procedure_type := ''Stent''\<rparr>)
                ex_user ex_db ex_globals =
              (Inl (HTTPException 400 detail), ex_db, ex_globals))
   \<and> (\<exists>detail. create_procedure ex_env (ex_request\<lparr>pc_patient_hash := ''ffff''\<rparr>)
                ex_user ex_db ex_globals =
              (Inl (HTTPException 404 detail), ex_db, ex_globals))"
proof -
  have a: "pc_procedure_type (ex_request\<lparr>pc_procedure_type := ''Stent''\<rparr>)
             \<notin> set PROCEDURE_TYPES"
    by (simp add: PROCEDURE_TYPES_def)
  have b: "\<forall>pa \<in> set (patients ex_db).
             pat_patient_hash pa \<noteq> Some (pc_patient_hash (ex_request\<lparr>pc_patient_hash := ''ffff''\<rparr>))"
    and b': "pc_procedure_type (ex_request\<lparr>pc_patient_hash := ''ffff''\<rparr>) \<in> set PROCEDURE_TYPES"
    by (simp_all add: ex_db_def ex_patient_def ex_request_def PROCEDURE_TYPES_def)
  from create_procedure_rejects
         [of "ex_request\<lparr>pc_procedure_type := ''Stent''\<rparr>" ex_db ex_env ex_user ex_globals] a
  have "\<exists>detail. create_procedure ex_env (ex_request\<lparr>pc_procedure_type := ''Stent''\<rparr>)
                ex_user ex_db ex_globals =
              (Inl (HTTPException 400 detail), ex_db, ex_globals)"
    by auto
  moreover
  from create_procedure_rejects
         [of "ex_request\<lparr>pc_patient_hash := ''ffff''\<rparr>" ex_db ex_env ex_user ex_globals] b b'
  have "\<exists>detail. create_procedure ex_env (ex_request\<lparr>pc_patient_hash := ''ffff''\<rparr>)
                ex_user ex_db ex_globals =
              (Inl (HTTPException 404 detail), ex_db, ex_globals)"
    by auto
  ultimately show ?thesis by blast
qed

lemma create_procedure_accepted:
  assumes "pc_procedure_type req \<in> set PROCEDURE_TYPES"
    and "find (\<lambda>pa. pat_patient_hash pa = Some (pc_patient_hash req)) (patients db) = Some pa"
  shows "create_procedure env req current_user db g =
           (case ledger_step env req (new_procedure env req current_user db)
                   (db\<lparr>procedures := procedures db @ [new_procedure env req current_user db]\<rparr>) g of
              (r, db', g') \<Rightarrow> (Inr r, db', g'))"
  using assms by (simp add: create_procedure_def new_procedure_def Let_def)

lemma create_procedure_Inr:
  assumes "create_procedure env req current_user db g = (Inr r, db', g')"
  shows "ledger_step env req (new_procedure env req current_user db)
                   (db\<lparr>procedures := procedures db @ [new_procedure env req current_user db]\<rparr>) g
          = (r, db', g')"
  using assms
  by (auto simp: create_procedure_def new_procedure_def Let_def
           split: if_splits option.splits prod.splits)

lemma ledger_step_no_credential:
  "\<not> truthy_str (env_PRACTITIONER_PRIVATE_KEY env) \<Longrightarrow> ledger_step env req p db g = (p, db, g)"
  by (simp add: ledger_step_def)

lemma ledger_step_failed:
  assumes "truthy_str (env_PRACTITIONER_PRIVATE_KEY env)"
    and "submission_failed (fst (record_procedure_on_blockchain env
                   (pc_patient_hash req) (pc_procedure_type req)
                   (pc_duration req) (pc_consent_hash req)
                   (case pc_metadata req of None \<Rightarrow> [] | Some m \<Rightarrow> m)
                   (the (env_PRACTITIONER_PRIVATE_KEY env)) g))"
  shows "\<exists>g'. ledger_step env req p db g = (p, db, g')"
  using assms
  by (auto simp: ledger_step_def submission_failed_def Let_def
           split: sum.splits option.splits prod.splits)


text \<open>
  Claim C2. For a supported procedure type and an existing patient, when a signing key is
  configured and the ledger submission fails (the client cannot be initialised, or the
  submission raises or reports failure), \<open>create_procedure\<close> returns the row it has
  inserted, the ledger step changes nothing in the database, and the row has no
  \<open>blockchain_id\<close> and no \<open>blockchain_tx_hash\<close>; no exception leaves the handler.
\<close>

theorem create_procedure_ledger_failure:
  assumes "pc_procedure_type req \<in> set PROCEDURE_TYPES"
    and "find (\<lambda>pa. pat_patient_hash pa = Some (pc_patient_hash req)) (patients db) = Some pa"
    and "truthy_str (env_PRACTITIONER_PRIVATE_KEY env)"
    and "submission_failed (fst (record_procedure_on_blockchain env
                   (pc_patient_hash req) (pc_procedure_type req)
                   (pc_duration req) (pc_consent_hash req)
                   (case pc_metadata req of None \<Rightarrow> [] | Some m \<Rightarrow> m)
                   (the (env_PRACTITIONER_PRIVATE_KEY env)) g))"
  shows "\<exists>r g'. create_procedure env req current_user db g
                   = (Inr r, db\<lparr>procedures := procedures db @ [r]\<rparr>, g')
           \<and> proc_blockchain_id r = None \<and> proc_blockchain_tx_hash r = None
           \<and> proc_id r = next_id (map proc_id (procedures db))
           \<and> proc_patient_hash r = Some (pc_patient_hash req)
           \<and> proc_procedure_type r = Some (pc_procedure_type req)
           \<and> proc_duration r = Some (pc_duration req)
           \<and> proc_consent_hash r = Some (pc_consent_hash req)"
proof -
  from ledger_step_failed [OF assms(3,4)] obtain g' where
    "ledger_step env req (new_procedure env req current_user db)
        (db\<lparr>procedures := procedures db @ [new_procedure env req current_user db]\<rparr>) g
      = (new_procedure env req current_user db,
         db\<lparr>procedures := procedures db @ [new_procedure env req current_user db]\<rparr>, g')"
    by blast
  then have "create_procedure env req current_user db g
          = (Inr (new_procedure env req current_user db),
             db\<lparr>procedures := procedures db @ [new_procedure env req current_user db]\<rparr>, g')"
    by (simp add: create_procedure_accepted [OF assms(1,2)])
  then show ?thesis by (simp add: new_procedure_def)
qed


text \<open>Witness for C2: the node is unreachable.\<close>

theorem create_procedure_ledger_failure_witness:
  "submission_failed (fst (record_procedure_on_blockchain ex_env_unreachable
       ''abcdef0123456789'' ''stent'' 45 ''c0ffee'' [] ''0xkey'' ex_globals))
   \<and> (\<exists>r g'. create_procedure ex_env_unreachable ex_request ex_user ex_db ex_globals
                 = (Inr r, ex_db\<lparr>procedures := procedures ex_db @ [r]\<rparr>, g')
          \<and> proc_blockchain_id r = None \<and> proc_blockchain_tx_hash r = None
          \<and> proc_procedure_type r = Some ''stent'')"
proof -
  have f: "submission_failed (fst (record_procedure_on_blockchain ex_env_unreachable
       ''abcdef0123456789'' ''stent'' 45 ''c0ffee'' [] ''0xkey'' ex_globals))"
    by (simp add: submission_failed_def record_procedure_on_blockchain_def init_web3_cases
          ex_env_unreachable_def ex_env_def ex_globals_def)
  have k: "the (env_PRACTITIONER_PRIVATE_KEY ex_env_unreachable) = ''0xkey''"
    and q: "pc_patient_hash ex_request = ''abcdef0123456789''"
      "pc_procedure_type ex_request = ''stent''" "pc_duration ex_request = 45"
      "pc_consent_hash ex_request = ''c0ffee''"
    by (simp_all add: ex_env_unreachable_def ex_env_def ex_request_def)
  have h: "pc_procedure_type ex_request \<in> set PROCEDURE_TYPES"
      "find (\<lambda>pa. pat_patient_hash pa = Some (pc_patient_hash ex_request)) (patients ex_db)
         = Some ex_patient"
      "truthy_str (env_PRACTITIONER_PRIVATE_KEY ex_env_unreachable)"
      "submission_failed (fst (record_procedure_on_blockchain ex_env_unreachable
                   (pc_patient_hash ex_request) (pc_procedure_type ex_request)
                   (pc_duration ex_request) (pc_consent_hash ex_request)
                   (case pc_metadata ex_request of None \<Rightarrow> [] | Some m \<Rightarrow> m)
                   (the (env_PRACTITIONER_PRIVATE_KEY ex_env_unreachable)) ex_globals))"
    using f
    by (simp_all add: k q ex_args_metadata)
       (simp_all add: ex_request_def PROCEDURE_TYPES_def ex_db_def ex_patient_def
          ex_env_unreachable_def ex_env_def)
  from create_procedure_ledger_failure [OF h, of ex_user] f q(2) show ?thesis by auto
qed

lemma ledger_step_result:
  assumes "ledger_step env req p db g = (r, db', g')"
  shows "proc_id r = proc_id p"
    and "proc_blockchain_id r = proc_blockchain_id p \<or> proc_blockchain_id r = Some (proc_id p)"
    and "procedures db' = procedures db \<or> procedures db' = update_procedure r (procedures db)"
  using assms
  by (auto simp: ledger_step_def Let_def
           split: if_splits sum.splits option.splits prod.splits json.splits)


text \<open>
  Claim C5. In the record that \<open>create_procedure\<close> returns, a \<open>blockchain_id\<close> that is set
  equals the \<open>id\<close> of the record; and when every stored row has this property before the
  call, every stored row has it after the call.
\<close>

theorem create_procedure_ledger_id:
  assumes "create_procedure env req current_user db g = (Inr r, db', g')"
  shows "(\<forall>b. proc_blockchain_id r = Some b \<longrightarrow> b = proc_id r)
     \<and> ((\<forall>p \<in> set (procedures db). \<forall>b. proc_blockchain_id p = Some b \<longrightarrow> b = proc_id p) \<longrightarrow>
        (\<forall>p \<in> set (procedures db'). \<forall>b. proc_blockchain_id p = Some b \<longrightarrow> b = proc_id p))"
proof -
  let ?p = "new_procedure env req current_user db"
  let ?db = "db\<lparr>procedures := procedures db @ [?p]\<rparr>"
  have ls: "ledger_step env req ?p ?db g = (r, db', g')"
    using assms by (rule create_procedure_Inr)
  have n: "proc_blockchain_id ?p = None" by (simp add: new_procedure_def)
  have r: "\<forall>b. proc_blockchain_id r = Some b \<longrightarrow> b = proc_id r"
    using ledger_step_result(1,2) [OF ls] n by auto
  have rows: "set (procedures db') \<subseteq> insert r (insert ?p (set (procedures db)))"
    using ledger_step_result(3) [OF ls] by (auto simp: update_procedure_def)
  show ?thesis using r rows n by force
qed


text \<open>Witness for C5: the submission succeeds and the new row gets its own id as ledger
  id.\<close>

theorem create_procedure_ledger_id_witness:
  "\<exists>r db' g'. create_procedure ex_env ex_request ex_user ex_db ex_globals = (Inr r, db', g')
      \<and> proc_blockchain_id r = Some (proc_id r)
      \<and> proc_blockchain_tx_hash r = Some ''0xabc''"
proof -
  have "\<exists>r db' g'. create_procedure ex_env ex_request ex_user ex_db ex_globals = (Inr r, db', g')
      \<and> proc_blockchain_id r \<noteq> None \<and> proc_blockchain_tx_hash r = Some ''0xabc''"
    by (simp add: create_procedure_def ledger_step_def record_procedure_on_blockchain_def
          init_web3_cases dict_get_def Let_def ex_env_def ex_request_def ex_db_def
          ex_patient_def ex_globals_def PROCEDURE_TYPES_def)
  then obtain r db' g' where
    c: "create_procedure ex_env ex_request ex_user ex_db ex_globals = (Inr r, db', g')"
    and n: "proc_blockchain_id r \<noteq> None" and t: "proc_blockchain_tx_hash r = Some ''0xabc''"
    by blast
  from create_procedure_ledger_id [OF c] n have "proc_blockchain_id r = Some (proc_id r)"
    by auto
  with c t show ?thesis by blast
qed


section \<open>Storing generated documents\<close>

lemma generate_fhir_claim_Inr:
  assumes "generate_fhir_claim env procedure_id db = (Inr claim, db')"
  shows "\<exists>row. fhir_resources db' = fhir_resources db @ [row]
           \<and> res_resource_type row = Some ''Claim''
           \<and> res_resource_id row = Some (''claim-'' @ str_int procedure_id)
           \<and> res_fhir_data row = Some claim
           \<and> documents_for ''Claim'' (''claim-'' @ str_int procedure_id) db'
               = documents_for ''Claim'' (''claim-'' @ str_int procedure_id) db @ [row]"
  using assms
  by (auto simp: generate_fhir_claim_def documents_for_def Let_def
           split: option.splits sum.splits)

text \<open>
  Claim C1, as the code has it. Storing a generated claim appends: a successful
  \<open>generate_fhir_claim\<close> adds one row to the table, under the key \<open>(Claim, claim-id)\<close> and
  holding the document just built, after the rows already stored, which stay as they were.
  The documents stored under that key are the earlier ones followed by the new one.
\<close>

theorem generate_fhir_claim_appends:
  assumes "generate_fhir_claim env procedure_id db = (Inr claim, db')"
  shows "\<exists>row. fhir_resources db' = fhir_resources db @ [row]
           \<and> res_resource_type row = Some ''Claim''
           \<and> res_resource_id row = Some (''claim-'' @ str_int procedure_id)
           \<and> res_fhir_data row = Some claim
           \<and> documents_for ''Claim'' (''claim-'' @ str_int procedure_id) db'
               = documents_for ''Claim'' (''claim-'' @ str_int procedure_id) db @ [row]"
  using assms by (rule generate_fhir_claim_Inr)

lemma generate_fhir_claim_ok:
  assumes "find (\<lambda>p. proc_id p = procedure_id) (procedures db) = Some p"
    and "find (\<lambda>pa. pat_patient_hash pa = proc_patient_hash p) (patients db) = Some pa"
    and "find (\<lambda>u. Some (user_id u) = proc_practitioner_id p) (users db) = Some u"
    and "create_fhir_claim p pa u = Inr claim"
  shows "generate_fhir_claim env procedure_id db =
           (Inr claim,
            db\<lparr>fhir_resources := fhir_resources db @
                 [\<lparr>res_id = next_id (map res_id (fhir_resources db)),
                   res_resource_type = Some ''Claim'',
                   res_resource_id = Some (''claim-'' @ str_int procedure_id),
                   res_fhir_data = Some claim,
                   res_created_at = Some (utcnow env),
                   res_updated_at = Some (utcnow env)\<rparr>]\<rparr>)"
  using assms by (simp add: generate_fhir_claim_def Let_def)

lemma str_int_1: "str_int 1 = ''1''"
  by (simp add: str_int_def str_nat.simps)

lemma create_fhir_claim_ex_consented:
  "create_fhir_claim ex_consented ex_patient ex_user =
     Inr (built_claim ex_consented ex_user ''stent'' ''abcdef0123456789'' ex_time ex_time)"
  by (simp add: create_fhir_claim_def built_claim_def get_snomed_code_def Let_def
        ex_consented_def ex_procedure_def ex_patient_def)

lemma ex_db_finds:
  "find (\<lambda>p. proc_id p = 1) (procedures ex_db) = Some ex_procedure"
  "find (\<lambda>pa. pat_patient_hash pa = proc_patient_hash ex_procedure) (patients ex_db)
     = Some ex_patient"
  "find (\<lambda>u. Some (user_id u) = proc_practitioner_id ex_procedure) (users ex_db) = Some ex_user"
  "find (\<lambda>pa. pat_patient_hash pa = proc_patient_hash ex_consented) (patients ex_db)
     = Some ex_patient"
  "find (\<lambda>u. Some (user_id u) = proc_practitioner_id ex_consented) (users ex_db) = Some ex_user"
  by (simp_all add: ex_db_def ex_procedure_def ex_consented_def ex_patient_def ex_user_def)

lemma generate_fhir_claim_ex_db:
  "generate_fhir_claim ex_env 1 ex_db =
     (Inr (built_claim ex_procedure ex_user ''stent'' ''abcdef0123456789'' ex_time ex_time),
      ex_db\<lparr>fhir_resources :=
        [\<lparr>res_id = 1, res_resource_type = Some ''Claim'', res_resource_id = Some ''claim-1'',
          res_fhir_data =
            Some (built_claim ex_procedure ex_user ''stent'' ''abcdef0123456789'' ex_time ex_time),
          res_created_at = Some ex_time, res_updated_at = Some ex_time\<rparr>]\<rparr>)"
  unfolding generate_fhir_claim_ok [OF ex_db_finds(1,2,3) create_fhir_claim_examples(1)]
  by (simp add: ex_db_def next_id_def str_int_1 ex_env_def)

lemma ex_db_consent_eq:
  "ex_db_consent = \<lparr>users = [ex_user], patients = [ex_patient], procedures = [ex_consented],
      fhir_resources =
        [\<lparr>res_id = 1, res_resource_type = Some ''Claim'', res_resource_id = Some ''claim-1'',
          res_fhir_data =
            Some (built_claim ex_procedure ex_user ''stent'' ''abcdef0123456789'' ex_time ex_time),
          res_created_at = Some ex_time, res_updated_at = Some ex_time\<rparr>]\<rparr>"
  unfolding ex_db_consent_def ex_db_first_def generate_fhir_claim_ex_db
  by (simp add: ex_db_def)

lemma ex_db_consent_finds:
  "find (\<lambda>p. proc_id p = 1) (procedures ex_db_consent) = Some ex_consented"
  "find (\<lambda>pa. pat_patient_hash pa = proc_patient_hash ex_consented) (patients ex_db_consent)
     = Some ex_patient"
  "find (\<lambda>u. Some (user_id u) = proc_practitioner_id ex_consented) (users ex_db_consent)
     = Some ex_user"
  using ex_db_finds(4,5)
  by (simp_all add: ex_db_consent_eq ex_db_def)
     (simp add: ex_consented_def ex_procedure_def)

lemma documents_ex_db_second:
  "documents_for ''Claim'' ''claim-1'' ex_db_second =
        [\<lparr>res_id = 1, res_resource_type = Some ''Claim'', res_resource_id = Some ''claim-1'',
          res_fhir_data =
            Some (built_claim ex_procedure ex_user ''stent'' ''abcdef0123456789'' ex_time ex_time),
          res_created_at = Some ex_time, res_updated_at = Some ex_time\<rparr>,
         \<lparr>res_id = 2, res_resource_type = Some ''Claim'', res_resource_id = Some ''claim-1'',
          res_fhir_data =
            Some (built_claim ex_consented ex_user ''stent'' ''abcdef0123456789'' ex_time ex_time),
          res_created_at = Some ex_time, res_updated_at = Some ex_time\<rparr>]"
  unfolding ex_db_second_def
    generate_fhir_claim_ok [OF ex_db_consent_finds create_fhir_claim_ex_consented]
  by (simp add: documents_for_def ex_db_consent_eq next_id_def str_int_1 ex_env_def)

lemma ex_payloads_differ:
  "built_claim ex_procedure ex_user ''stent'' ''abcdef0123456789'' ex_time ex_time
     \<noteq> built_claim ex_consented ex_user ''stent'' ''abcdef0123456789'' ex_time ex_time"
proof
  assume "built_claim ex_procedure ex_user ''stent'' ''abcdef0123456789'' ex_time ex_time
     = built_claim ex_consented ex_user ''stent'' ''abcdef0123456789'' ex_time ex_time"
  then have "dict_get (built_claim ex_procedure ex_user ''stent'' ''abcdef0123456789'' ex_time
                 ex_time) ''supportingInfo''
     = dict_get (built_claim ex_consented ex_user ''stent'' ''abcdef0123456789'' ex_time ex_time)
         ''supportingInfo''"
    by simp
  then show False
    by (simp add: built_claim_supportingInfo ex_procedure_def ex_consented_def)
qed

text \<open>Witness for C1: the first claim generated for procedure 1 is the one document under
  its key.\<close>

theorem generate_fhir_claim_appends_witness:
  "\<exists>claim db'. generate_fhir_claim ex_env 1 ex_db = (Inr claim, db')
      \<and> map res_fhir_data (documents_for ''Claim'' ''claim-1'' db') = [Some claim]"
proof -
  obtain claim db' where
    g: "generate_fhir_claim ex_env 1 ex_db = (Inr claim, db')"
    using generate_fhir_claim_ex_db by blast
  have e: "documents_for ''Claim'' (''claim-'' @ str_int 1) ex_db = []"
    by (simp add: documents_for_def ex_db_def)
  from generate_fhir_claim_appends [OF g] e
  have "map res_fhir_data (documents_for ''Claim'' ''claim-1'' db') = [Some claim]"
    by (auto simp: str_int_1)
  with g show ?thesis by (intro exI [of _ claim] exI [of _ db'] conjI)
qed

text \<open>Counterexample to C1 as stated: the claim of procedure 1 is generated, a consent
  hash is recorded on the procedure, and the claim is generated again. Two documents are
  then stored under the key \<open>(Claim, claim-1)\<close>, with different payloads.\<close>

theorem generate_fhir_claim_twice_two_documents:
  "length (documents_for ''Claim'' ''claim-1'' ex_db_second) = 2
   \<and> res_fhir_data (documents_for ''Claim'' ''claim-1'' ex_db_second ! 0)
       \<noteq> res_fhir_data (documents_for ''Claim'' ''claim-1'' ex_db_second ! 1)"
  by (simp add: documents_ex_db_second ex_payloads_differ)

end
